theory Spec2Isabelle
  imports Complex_Main
begin

section \<open>Double-precision values\<close>

text \<open>
  The C++ type \<open>double\<close>. A value is a finite number, one of the two infinities, or
  not-a-number. The special values follow IEEE 754. A finite result of an operation
  overflows to an infinity when its magnitude reaches \<open>2^1024 - 2^970\<close> (the midpoint
  above the largest double) and underflows to zero when its magnitude is at most
  \<open>2^-1075\<close> (half the smallest double); for \<open>exp\<close> and \<open>pow\<close>, which the C library
  computes to within its own last-digit error, these two bounds are the nominal ones.
  Between the two bounds a result is kept as the real number it is: rounding to the
  nearest double is not part of this model. The two zeros are identified (a division by
  zero takes its sign from the numerator, as for \<open>+0.0\<close>).
\<close>

datatype double = Finite real | PosInf | NegInf | NaN

definition OVERFLOW_THRESHOLD :: real where
  "OVERFLOW_THRESHOLD = 2 ^ 1024 - 2 ^ 970"

definition UNDERFLOW_THRESHOLD :: real where
  "UNDERFLOW_THRESHOLD = 1 / 2 ^ 1075"

text \<open>The sign of an infinite result.\<close>

definition signed_inf :: "bool \<Rightarrow> double" where
  "signed_inf negative = (if negative then NegInf else PosInf)"

text \<open>The double that a finite operation delivers for the exact result \<open>r\<close>.\<close>

definition to_double :: "real \<Rightarrow> double" where
  "to_double r =
     (if OVERFLOW_THRESHOLD \<le> \<bar>r\<bar> then signed_inf (r < 0)
      else if \<bar>r\<bar> \<le> UNDERFLOW_THRESHOLD then Finite 0
      else Finite r)"

fun d_neg :: "double \<Rightarrow> double" where
  "d_neg (Finite a) = Finite (- a)"
| "d_neg PosInf = NegInf"
| "d_neg NegInf = PosInf"
| "d_neg NaN = NaN"

fun d_fabs :: "double \<Rightarrow> double" where
  "d_fabs (Finite a) = Finite \<bar>a\<bar>"
| "d_fabs PosInf = PosInf"
| "d_fabs NegInf = PosInf"
| "d_fabs NaN = NaN"

fun d_add :: "double \<Rightarrow> double \<Rightarrow> double" where
  "d_add (Finite a) (Finite b) = to_double (a + b)"
| "d_add NaN _ = NaN"
| "d_add _ NaN = NaN"
| "d_add PosInf NegInf = NaN"
| "d_add NegInf PosInf = NaN"
| "d_add PosInf _ = PosInf"
| "d_add NegInf _ = NegInf"
| "d_add _ PosInf = PosInf"
| "d_add _ NegInf = NegInf"

definition d_sub :: "double \<Rightarrow> double \<Rightarrow> double" where
  "d_sub a b = d_add a (d_neg b)"

fun d_mul :: "double \<Rightarrow> double \<Rightarrow> double" where
  "d_mul (Finite a) (Finite b) = to_double (a * b)"
| "d_mul NaN _ = NaN"
| "d_mul _ NaN = NaN"
| "d_mul (Finite a) PosInf = (if a = 0 then NaN else signed_inf (a < 0))"
| "d_mul (Finite a) NegInf = (if a = 0 then NaN else signed_inf (0 < a))"
| "d_mul PosInf (Finite b) = (if b = 0 then NaN else signed_inf (b < 0))"
| "d_mul NegInf (Finite b) = (if b = 0 then NaN else signed_inf (0 < b))"
| "d_mul PosInf PosInf = PosInf"
| "d_mul PosInf NegInf = NegInf"
| "d_mul NegInf PosInf = NegInf"
| "d_mul NegInf NegInf = PosInf"

fun d_div :: "double \<Rightarrow> double \<Rightarrow> double" where
  "d_div (Finite a) (Finite b) =
     (if b = 0 then (if a = 0 then NaN else signed_inf (a < 0)) else to_double (a / b))"
| "d_div NaN _ = NaN"
| "d_div _ NaN = NaN"
| "d_div (Finite a) PosInf = Finite 0"
| "d_div (Finite a) NegInf = Finite 0"
| "d_div PosInf (Finite b) = signed_inf (b < 0)"
| "d_div NegInf (Finite b) = signed_inf (0 \<le> b)"
| "d_div PosInf PosInf = NaN"
| "d_div PosInf NegInf = NaN"
| "d_div NegInf PosInf = NaN"
| "d_div NegInf NegInf = NaN"

fun d_exp :: "double \<Rightarrow> double" where
  "d_exp (Finite a) = to_double (exp a)"
| "d_exp PosInf = PosInf"
| "d_exp NegInf = Finite 0"
| "d_exp NaN = NaN"

text \<open>\<open>pow(10.0, y)\<close>, the one use of \<open>pow\<close> in the source.\<close>

fun pow_10 :: "double \<Rightarrow> double" where
  "pow_10 (Finite y) = to_double (10 powr y)"
| "pow_10 PosInf = PosInf"
| "pow_10 NegInf = Finite 0"
| "pow_10 NaN = NaN"

definition is_nan :: "double \<Rightarrow> bool" where
  "is_nan v = (case v of NaN \<Rightarrow> True | _ \<Rightarrow> False)"

text \<open>
  A real number that an operation delivers as it is: zero, or a number strictly between
  the two bounds in magnitude.
\<close>

definition in_range :: "real \<Rightarrow> bool" where
  "in_range r = (r = 0 \<or> (UNDERFLOW_THRESHOLD < \<bar>r\<bar> \<and> \<bar>r\<bar> < OVERFLOW_THRESHOLD))"


section \<open>The Gaussian-1D function object (func1d_gaussian.cpp)\<close>

definition N_PARAMS :: int where
  "N_PARAMS = 2"

definition PARAM_LABELS :: "string list" where
  "PARAM_LABELS = [''mu_0'', ''sigma'']"

definition FUNCTION_NAME :: string where
  "FUNCTION_NAME = ''Gaussian-1D function''"

definition CLASS_SHORT_NAME :: string where
  "CLASS_SHORT_NAME = ''Gaussian-1D''"

text \<open>
  The members of a \<open>Gaussian1D\<close> object: those the constructor sets, and the four
  doubles that \<open>Setup\<close> sets and \<open>GetValue\<close> reads.
\<close>

record Gaussian1D =
  nParams :: int
  functionName :: string
  shortFunctionName :: string
  parameterLabels :: "string list"
  x0 :: double
  mu_0 :: double
  sigma :: double
  I_0 :: double

text \<open>
  The constructor's loop \<open>for (int i = 0; i < nParams; i++)\<close>, which appends
  \<open>PARAM_LABELS[i]\<close> to the label vector. The constructor runs it with
  \<open>n = N_PARAMS\<close>, the length of \<open>PARAM_LABELS\<close>, so every index read is inside
  the array.
\<close>

function push_labels :: "int \<Rightarrow> int \<Rightarrow> string list \<Rightarrow> string list" where
  "push_labels i n labels =
     (if i < n then push_labels (i + 1) n (labels @ [PARAM_LABELS ! nat i]) else labels)"
  by pat_completeness auto
termination
  by (relation "measure (\<lambda>(i, n, labels). nat (n - i))") auto

declare push_labels.simps [simp del]

text \<open>
  The constructor. The object it is given is the freshly allocated one: its four doubles
  hold whatever the memory held, and its label vector starts empty.
\<close>

definition Gaussian1D_new :: "Gaussian1D \<Rightarrow> Gaussian1D" where
  "Gaussian1D_new raw =
     (let g = raw\<lparr>nParams := N_PARAMS, functionName := FUNCTION_NAME,
                  shortFunctionName := CLASS_SHORT_NAME\<rparr>
      in g\<lparr>parameterLabels := push_labels 0 (nParams g) []\<rparr>)"

text \<open>
  Reading \<open>params[i]\<close>. The array is a list; an index outside it is undefined
  behaviour in C++ and a fault here.
\<close>

datatype fault = OutOfBounds

definition read_param :: "double list \<Rightarrow> int \<Rightarrow> fault + double" where
  "read_param params i =
     (if 0 \<le> i \<and> i < int (length params) then Inr (params ! nat i) else Inl OutOfBounds)"

text \<open>
  \<open>Setup\<close>. The zero-point \<open>ZP\<close> is a name the function reads and never assigns; its
  declaration is not in the file, so it is an argument here.
\<close>

definition Setup :: "double \<Rightarrow> double list \<Rightarrow> int \<Rightarrow> double \<Rightarrow> Gaussian1D \<Rightarrow> fault + Gaussian1D" where
  "Setup ZP params offsetIndex xc g =
     (case read_param params (0 + offsetIndex) of
        Inl e \<Rightarrow> Inl e
      | Inr m \<Rightarrow>
          (case read_param params (1 + offsetIndex) of
             Inl e \<Rightarrow> Inl e
           | Inr s \<Rightarrow>
               Inr (g\<lparr>x0 := xc, mu_0 := m, sigma := s,
                      I_0 := pow_10 (d_mul (Finite (4 / 10)) (d_sub ZP m))\<rparr>)))"

text \<open>
  \<open>GetValue\<close> returns the value together with the object as the call leaves it; the
  source assigns no member.
\<close>

definition GetValue :: "Gaussian1D \<Rightarrow> double \<Rightarrow> double \<times> Gaussian1D" where
  "GetValue g x =
     (let scaledDeltaR = d_div (d_fabs (d_sub x (x0 g))) (sigma g);
          exponent = d_div (d_neg (d_mul scaledDeltaR scaledDeltaR)) (Finite 2)
      in (d_mul (I_0 g) (d_exp exponent), g))"

text \<open>
  A component is used by calling \<open>Setup\<close> and then \<open>GetValue\<close>; this is the value of
  that pair of calls.
\<close>

definition value_after_Setup ::
  "double \<Rightarrow> double list \<Rightarrow> int \<Rightarrow> double \<Rightarrow> Gaussian1D \<Rightarrow> double \<Rightarrow> fault + double" where
  "value_after_Setup ZP params offsetIndex xc g x =
     (case Setup ZP params offsetIndex xc g of
        Inl e \<Rightarrow> Inl e
      | Inr g' \<Rightarrow> Inr (fst (GetValue g' x)))"

text \<open>An object as the constructor leaves it, its four doubles not yet set.\<close>

definition unset_Gaussian1D :: Gaussian1D where
  "unset_Gaussian1D =
     Gaussian1D_new \<lparr>nParams = 0, functionName = [], shortFunctionName = [],
                      parameterLabels = [], x0 = NaN, mu_0 = NaN, sigma = NaN, I_0 = NaN\<rparr>"

text \<open>
  The conditions under which no step of \<open>Setup\<close> and of \<open>GetValue\<close> overflows or
  underflows, for finite arguments: each line is the exact value of one intermediate
  result of the source, in its order.
\<close>

definition Setup_steps_in_range :: "real \<Rightarrow> real \<Rightarrow> bool" where
  "Setup_steps_in_range zp m =
     (in_range (zp - m)
      \<and> in_range (4 / 10 * (zp - m))
      \<and> in_range (10 powr (4 / 10 * (zp - m))))"

definition GetValue_steps_in_range :: "real \<Rightarrow> real \<Rightarrow> real \<Rightarrow> real \<Rightarrow> bool" where
  "GetValue_steps_in_range i0 c s t =
     (s \<noteq> 0
      \<and> in_range (t - c)
      \<and> in_range (\<bar>t - c\<bar> / s)
      \<and> in_range (\<bar>t - c\<bar> / s * (\<bar>t - c\<bar> / s))
      \<and> in_range (- (\<bar>t - c\<bar> / s * (\<bar>t - c\<bar> / s)) / 2)
      \<and> in_range (exp (- (\<bar>t - c\<bar> / s * (\<bar>t - c\<bar> / s)) / 2))
      \<and> in_range (i0 * exp (- (\<bar>t - c\<bar> / s * (\<bar>t - c\<bar> / s)) / 2)))"


section \<open>The zero-point of a process\<close>

text \<open>
  Modelled from the spec: the declaration of \<open>ZP\<close> and the code that builds a model and
  calls its components are missing from the source files. The spec gives a process-wide
  photometric zero-point with default value 25.0, configured at model construction and
  immutable thereafter, and a list of components that are used through \<open>Setup\<close> and
  \<open>GetValue\<close>. A process holds the one zero-point and the components; \<open>new_process\<close>
  is the model construction, a \<open>call\<close> is one use of the component with the given index.
\<close>

definition ZP_default :: double where
  "ZP_default = Finite 25"

record process =
  zero_point :: double
  components :: "Gaussian1D list"

definition new_process :: "double option \<Rightarrow> Gaussian1D list \<Rightarrow> process" where
  "new_process configured raws =
     \<lparr>zero_point = (case configured of None \<Rightarrow> ZP_default | Some zp \<Rightarrow> zp),
      components = map Gaussian1D_new raws\<rparr>"

datatype call = Call_Setup nat "double list" int double | Call_GetValue nat double

fun step :: "process \<Rightarrow> call \<Rightarrow> fault + process" where
  "step p (Call_Setup i params offsetIndex xc) =
     (if i < length (components p)
      then (case Setup (zero_point p) params offsetIndex xc (components p ! i) of
              Inl e \<Rightarrow> Inl e
            | Inr g' \<Rightarrow> Inr (p\<lparr>components := (components p)[i := g']\<rparr>))
      else Inl OutOfBounds)"
| "step p (Call_GetValue i x) =
     (if i < length (components p)
      then Inr (p\<lparr>components := (components p)[i := snd (GetValue (components p ! i) x)]\<rparr>)
      else Inl OutOfBounds)"

fun run :: "process \<Rightarrow> call list \<Rightarrow> fault + process" where
  "run p [] = Inr p"
| "run p (c # cs) = (case step p c of Inl e \<Rightarrow> Inl e | Inr p' \<Rightarrow> run p' cs)"

text \<open>A component whose intensity is the conversion of its magnitude under \<open>zp\<close>.\<close>

definition converted :: "double \<Rightarrow> Gaussian1D \<Rightarrow> bool" where
  "converted zp g = (I_0 g = pow_10 (d_mul (Finite (4 / 10)) (d_sub zp (mu_0 g))))"


section \<open>Processes\<close>

text \<open>
  The outcome of running a function of image_io.cpp: the process is ended by
  \<open>exit(status)\<close>, or the function returns to its caller, or the behaviour is undefined
  (a variable is read that was never set, or an array is read past its end).
\<close>

datatype 'a proc = Exit int | Return 'a | Undefined

definition proc_bind :: "'a proc \<Rightarrow> ('a \<Rightarrow> 'b proc) \<Rightarrow> 'b proc" where
  "proc_bind m f = (case m of Exit s \<Rightarrow> Exit s | Return a \<Rightarrow> f a | Undefined \<Rightarrow> Undefined)"

text \<open>
  The C type \<open>int\<close> is 32 bits wide. A \<open>long\<close> assigned to an \<open>int\<close> and the product
  of two \<open>int\<close>s keep the low 32 bits, read as two's complement. (C leaves a product that
  overflows undefined; the properties that rest on a product take it to fit.)
\<close>

definition long_to_int :: "int \<Rightarrow> int" where
  "long_to_int v = signed_take_bit 31 v"

definition int_mul :: "int \<Rightarrow> int \<Rightarrow> int" where
  "int_mul a b = signed_take_bit 31 (a * b)"


section \<open>The cfitsio routines that image_io.cpp calls\<close>

text \<open>
  cfitsio is a library outside this repository. This section fixes what the nine routines
  called by image_io.cpp do, after the library's documentation, for files that hold one
  two-dimensional image:
  \<^item> every routine returns the value it leaves in \<open>*status\<close>; it does nothing when the
    status is positive on entry, and leaves the status as it was when it succeeds;
  \<^item> the pixels of an image are stored with the first axis varying fastest, and
    \<open>firstpix\<close> counts from 1 on each axis;
  \<^item> a value written to an image is converted to the pixel type given by its BITPIX.
  What cannot be derived from the program is a parameter of the world: the files, the
  error that the system raises in a call (0 for none), and the conversion to a pixel type.
  The status numbers are those of fitsio.h; the properties below depend only on their being
  positive.
\<close>

definition READONLY :: int where "READONLY = 0"
definition READWRITE :: int where "READWRITE = 1"
definition TDOUBLE :: int where "TDOUBLE = 82"
definition FLOAT_IMG :: int where "FLOAT_IMG = - 32"
definition DOUBLE_IMG :: int where "DOUBLE_IMG = - 64"

definition FILE_NOT_OPENED :: int where "FILE_NOT_OPENED = 104"
definition FILE_NOT_CREATED :: int where "FILE_NOT_CREATED = 105"
definition WRITE_ERROR :: int where "WRITE_ERROR = 106"
definition END_OF_FILE :: int where "END_OF_FILE = 107"
definition NULL_INPUT_PTR :: int where "NULL_INPUT_PTR = 115"
definition BAD_BITPIX :: int where "BAD_BITPIX = 211"
definition BAD_NAXIS :: int where "BAD_NAXIS = 212"
definition BAD_NAXES :: int where "BAD_NAXES = 213"
definition NOT_IMAGE :: int where "NOT_IMAGE = 233"
definition BAD_DATATYPE :: int where "BAD_DATATYPE = 410"

record fits_image =
  bitpix :: int
  naxis1 :: int
  naxis2 :: int
  comment_cards :: "string list"
  has_date :: bool
  pixels :: "double list"

datatype io_call =
  OpenFile | ReadKeys | ReadPix | CloseFile | CreateFile | CreateImg
  | WriteComment | WriteDate | WritePix

record world =
  files :: "string \<Rightarrow> fits_image option"
  raises :: "io_call \<Rightarrow> int"
  stored_as :: "int \<Rightarrow> double \<Rightarrow> double"

text \<open>An open file; a \<open>fitsfile *\<close> is \<open>None\<close> when no file was opened.\<close>

record fitsfile =
  fname :: string
  iomode :: int
  hdu :: "fits_image option"

text \<open>The position of the pixel \<open>firstpix\<close> in the stored sequence, counted from 0.\<close>

fun pixel_offset :: "int list \<Rightarrow> int list \<Rightarrow> int" where
  "pixel_offset (n # ns) (p # ps) = (p - 1) + n * pixel_offset ns ps"
| "pixel_offset _ _ = 0"

definition pixel_at :: "fits_image \<Rightarrow> int \<Rightarrow> int \<Rightarrow> double" where
  "pixel_at img x y = pixels img ! nat (pixel_offset [naxis1 img, naxis2 img] [x, y])"

definition fits_open_file :: "string \<Rightarrow> int \<Rightarrow> int \<Rightarrow> world \<Rightarrow> int \<times> fitsfile option" where
  "fits_open_file name mode status w =
     (if 0 < status then (status, None)
      else if 0 < raises w OpenFile then (raises w OpenFile, None)
      else
        (case files w name of
           None \<Rightarrow> (FILE_NOT_OPENED, None)
         | Some img \<Rightarrow> (status, Some \<lparr>fname = name, iomode = mode, hdu = Some img\<rparr>)))"

text \<open>
  \<open>fits_read_keys_lng\<close> returns the values of the keywords it found, in order, and their
  number. The only keywords of the model are NAXIS1 and NAXIS2.
\<close>

definition fits_read_keys_lng ::
  "fitsfile option \<Rightarrow> string \<Rightarrow> int \<Rightarrow> int \<Rightarrow> int \<Rightarrow> world \<Rightarrow> int \<times> int list \<times> int" where
  "fits_read_keys_lng fptr keyname nstart nmax status w =
     (if 0 < status then (status, [], 0)
      else
        (case fptr of
           None \<Rightarrow> (NULL_INPUT_PTR, [], 0)
         | Some f \<Rightarrow>
             if 0 < raises w ReadKeys then (raises w ReadKeys, [], 0)
             else
               (case hdu f of
                  None \<Rightarrow> (NOT_IMAGE, [], 0)
                | Some img \<Rightarrow>
                    (let found =
                           (if keyname = ''NAXIS''
                            then take (nat nmax) (drop (nat (nstart - 1)) [naxis1 img, naxis2 img])
                            else [])
                     in (status, found, int (length found))))))"

definition fits_read_pix ::
  "fitsfile option \<Rightarrow> int \<Rightarrow> int list \<Rightarrow> int \<Rightarrow> int \<Rightarrow> world \<Rightarrow> int \<times> double list" where
  "fits_read_pix fptr dtype firstpix nelem status w =
     (if 0 < status then (status, [])
      else
        (case fptr of
           None \<Rightarrow> (NULL_INPUT_PTR, [])
         | Some f \<Rightarrow>
             if 0 < raises w ReadPix then (raises w ReadPix, [])
             else
               (case hdu f of
                  None \<Rightarrow> (NOT_IMAGE, [])
                | Some img \<Rightarrow>
                    (let first = pixel_offset [naxis1 img, naxis2 img] firstpix
                     in if dtype \<noteq> TDOUBLE then (BAD_DATATYPE, [])
                        else if first < 0 \<or> int (length (pixels img)) < first + nelem
                        then (END_OF_FILE, [])
                        else (status, take (nat nelem) (drop (nat first) (pixels img)))))))"

text \<open>
  \<open>fits_close_file\<close> writes a file that was created to the disk. Both functions of
  image_io.cpp reach it with status zero only.
\<close>

definition fits_close_file :: "fitsfile option \<Rightarrow> int \<Rightarrow> world \<Rightarrow> int \<times> world" where
  "fits_close_file fptr status w =
     (case fptr of
        None \<Rightarrow> (NULL_INPUT_PTR, w)
      | Some f \<Rightarrow>
          if 0 < status then (status, w)
          else if 0 < raises w CloseFile then (raises w CloseFile, w)
          else if iomode f = READONLY then (status, w)
          else (status, w\<lparr>files := (files w)(fname f := hdu f)\<rparr>))"

text \<open>A name that starts with \<open>!\<close> asks for an existing file to be replaced.\<close>

definition fits_create_file :: "string \<Rightarrow> int \<Rightarrow> world \<Rightarrow> int \<times> fitsfile option \<times> world" where
  "fits_create_file name status w =
     (if 0 < status then (status, None, w)
      else if 0 < raises w CreateFile then (raises w CreateFile, None, w)
      else
        (let clobber = (name \<noteq> [] \<and> hd name = CHR ''!'');
             nm = (if clobber then tl name else name)
         in if \<not> clobber \<and> files w nm \<noteq> None then (FILE_NOT_CREATED, None, w)
            else (status, Some \<lparr>fname = nm, iomode = READWRITE, hdu = None\<rparr>,
                  w\<lparr>files := (files w)(nm := None)\<rparr>)))"

definition fits_create_img ::
  "fitsfile option \<Rightarrow> int \<Rightarrow> int \<Rightarrow> int list \<Rightarrow> int \<Rightarrow> world \<Rightarrow> int \<times> fitsfile option" where
  "fits_create_img fptr bpix naxis naxes status w =
     (if 0 < status then (status, fptr)
      else
        (case fptr of
           None \<Rightarrow> (NULL_INPUT_PTR, None)
         | Some f \<Rightarrow>
             if 0 < raises w CreateImg then (raises w CreateImg, fptr)
             else if bpix \<notin> set [8, 16, 32, 64, - 32, - 64] then (BAD_BITPIX, fptr)
             else
               (case naxes of
                  [n1, n2] \<Rightarrow>
                    if naxis \<noteq> 2 then (BAD_NAXIS, fptr)
                    else if n1 < 0 \<or> n2 < 0 then (BAD_NAXES, fptr)
                    else (status,
                          Some (f\<lparr>hdu := Some \<lparr>bitpix = bpix, naxis1 = n1, naxis2 = n2,
                                               comment_cards = [], has_date = False,
                                               pixels = replicate (nat (n1 * n2)) (Finite 0)\<rparr>\<rparr>))
                | _ \<Rightarrow> (BAD_NAXIS, fptr))))"

definition fits_write_comment ::
  "fitsfile option \<Rightarrow> string \<Rightarrow> int \<Rightarrow> world \<Rightarrow> int \<times> fitsfile option" where
  "fits_write_comment fptr comment status w =
     (if 0 < status then (status, fptr)
      else
        (case fptr of
           None \<Rightarrow> (NULL_INPUT_PTR, None)
         | Some f \<Rightarrow>
             if 0 < raises w WriteComment then (raises w WriteComment, fptr)
             else
               (case hdu f of
                  None \<Rightarrow> (NOT_IMAGE, fptr)
                | Some img \<Rightarrow>
                    (status,
                     Some (f\<lparr>hdu := Some (img\<lparr>comment_cards := comment_cards img @ [comment]\<rparr>)\<rparr>)))))"

definition fits_write_date :: "fitsfile option \<Rightarrow> int \<Rightarrow> world \<Rightarrow> int \<times> fitsfile option" where
  "fits_write_date fptr status w =
     (if 0 < status then (status, fptr)
      else
        (case fptr of
           None \<Rightarrow> (NULL_INPUT_PTR, None)
         | Some f \<Rightarrow>
             if 0 < raises w WriteDate then (raises w WriteDate, fptr)
             else
               (case hdu f of
                  None \<Rightarrow> (NOT_IMAGE, fptr)
                | Some img \<Rightarrow> (status, Some (f\<lparr>hdu := Some (img\<lparr>has_date := True\<rparr>)\<rparr>)))))"

text \<open>
  \<open>fits_write_pix\<close> stores the first \<open>nelem\<close> values of the array, each converted to the
  pixel type of the image. The array is a pointer in C: when it holds fewer than \<open>nelem\<close>
  values the routine reads outside it, and the result is \<open>None\<close>.
\<close>

definition fits_write_pix ::
  "fitsfile option \<Rightarrow> int \<Rightarrow> int list \<Rightarrow> int \<Rightarrow> double list \<Rightarrow> int \<Rightarrow> world
     \<Rightarrow> (int \<times> fitsfile option) option" where
  "fits_write_pix fptr dtype firstpix nelem array status w =
     (if 0 < status then Some (status, fptr)
      else
        (case fptr of
           None \<Rightarrow> Some (NULL_INPUT_PTR, None)
         | Some f \<Rightarrow>
             if 0 < raises w WritePix then Some (raises w WritePix, fptr)
             else
               (case hdu f of
                  None \<Rightarrow> Some (NOT_IMAGE, fptr)
                | Some img \<Rightarrow>
                    (let first = pixel_offset [naxis1 img, naxis2 img] firstpix
                     in if dtype \<noteq> TDOUBLE then Some (BAD_DATATYPE, fptr)
                        else if first < 0 \<or> int (length (pixels img)) < first + nelem
                        then Some (WRITE_ERROR, fptr)
                        else if int (length array) < nelem then None
                        else Some (status,
                              Some (f\<lparr>hdu := Some (img\<lparr>pixels :=
                                take (nat first) (pixels img)
                                @ map (stored_as w (bitpix img)) (take (nat nelem) array)
                                @ drop (nat (first + nelem)) (pixels img)\<rparr>)\<rparr>))))))"


section \<open>Reading and writing images (image_io.cpp)\<close>

text \<open>
  \<open>PrintError\<close>. What it prints is left out; what remains is the call of \<open>exit\<close>.
\<close>

definition PrintError :: "int \<Rightarrow> unit proc" where
  "PrintError status = (if status \<noteq> 0 then Exit status else Return ())"

text \<open>
  \<open>ReadImageAsVector\<close> returns the pixel array together with the values it stores in
  \<open>*nColumns\<close> and \<open>*nRows\<close>, and the world as it leaves it. The messages printed are
  left out, so \<open>verbose\<close> has no effect here; the memory that \<open>malloc\<close> is asked for is
  taken to be there. The array \<open>naxes\<close> is not set before \<open>fits_read_keys_lng\<close> fills
  it: reading it when fewer than two keywords were found is undefined. After each call
  \<open>problems\<close>, the value returned, and \<open>status\<close> hold the same number.
\<close>

definition ReadImageAsVector ::
  "string \<Rightarrow> bool \<Rightarrow> world \<Rightarrow> (double list \<times> int \<times> int \<times> world) proc" where
  "ReadImageAsVector filename verbose w =
     (let firstPixel = [1, 1];
          status = 0;
          (status, imfile_ptr) = fits_open_file filename READONLY status w;
          problems = status
      in proc_bind (if problems \<noteq> 0 then PrintError status else Return ()) (\<lambda>_.
         let (status, naxes, nfound) = fits_read_keys_lng imfile_ptr ''NAXIS'' 1 2 status w;
             problems = status
         in proc_bind (if problems \<noteq> 0 then PrintError status else Return ()) (\<lambda>_.
            case naxes of
              [naxes0, naxes1] \<Rightarrow>
                (let n_columns = long_to_int naxes0;
                     n_rows = long_to_int naxes1;
                     nPixelsTot = int_mul n_columns n_rows;
                     (status, imageVector) =
                        fits_read_pix imfile_ptr TDOUBLE firstPixel nPixelsTot status w;
                     problems = status
                 in proc_bind (if problems \<noteq> 0 then PrintError status else Return ()) (\<lambda>_.
                    let (status, w') = fits_close_file imfile_ptr status w;
                        problems = status
                    in proc_bind (if problems \<noteq> 0 then PrintError status else Return ()) (\<lambda>_.
                       Return (imageVector, n_columns, n_rows, w'))))
            | _ \<Rightarrow> Undefined)))"

text \<open>The loop of \<open>SaveVectorAsImage\<close> over the comments, in their order.\<close>

fun write_comments ::
  "fitsfile option \<Rightarrow> string list \<Rightarrow> int \<Rightarrow> world \<Rightarrow> int \<times> fitsfile option" where
  "write_comments fptr [] status w = (status, fptr)"
| "write_comments fptr (c # cs) status w =
     (let (status', fptr') = fits_write_comment fptr c status w
      in write_comments fptr' cs status' w)"

text \<open>
  \<open>SaveVectorAsImage\<close> returns nothing; the result is the world as it leaves it. The
  routines before \<open>fits_write_pix\<close> are called without a test of what they return. The
  behaviour is undefined when \<open>pixelVector\<close> holds fewer values than \<open>fits_write_pix\<close>
  reads from it.
\<close>

definition SaveVectorAsImage ::
  "double list \<Rightarrow> string \<Rightarrow> int \<Rightarrow> int \<Rightarrow> string list \<Rightarrow> world \<Rightarrow> world proc" where
  "SaveVectorAsImage pixelVector filename nColumns nRows comments w =
     (let finalFilename = ''!'';
          firstPixel = [1, 1];
          status = 0;
          naxes = [nColumns, nRows];
          nPixels = int_mul nColumns nRows;
          finalFilename = finalFilename @ filename;
          (status, imfile_ptr, w) = fits_create_file finalFilename status w;
          (status, imfile_ptr) = fits_create_img imfile_ptr FLOAT_IMG 2 naxes status w;
          (status, imfile_ptr) =
             (if 0 < length comments then write_comments imfile_ptr comments status w
              else (status, imfile_ptr))
      in case fits_write_date imfile_ptr status w of (status, imfile_ptr) \<Rightarrow>
         (case fits_write_pix imfile_ptr TDOUBLE firstPixel nPixels pixelVector status w of
            None \<Rightarrow> Undefined
          | Some (status, imfile_ptr) \<Rightarrow>
              (let problems = status
               in proc_bind (if problems \<noteq> 0 then PrintError status else Return ()) (\<lambda>_.
                  let (status, w) = fits_close_file imfile_ptr status w;
                      problems = status
                  in proc_bind (if problems \<noteq> 0 then PrintError status else Return ()) (\<lambda>_.
                     Return w)))))"

section \<open>The conversion to single precision\<close>

text \<open>
  A \<open>FLOAT_IMG\<close> image holds IEEE single-precision numbers: 24 significant binary
  digits, with exponents from -126 to 127. cfitsio converts a double to that type with the
  C cast to \<open>float\<close>. \<open>to_single\<close> is that cast: the nearest single-precision number, the
  one with an even last digit when two are equally near, an infinity when the rounded
  magnitude reaches \<open>2^128\<close>; infinities and NaN are kept. \<open>single_ulp r\<close> is the distance
  between the single-precision numbers around \<open>r\<close>.
\<close>

definition round_half_even :: "real \<Rightarrow> int" where
  "round_half_even y =
     (let n = \<lfloor>y\<rfloor>; f = y - of_int n
      in if f < 1 / 2 then n else if 1 / 2 < f then n + 1 else if even n then n else n + 1)"

definition single_exponent :: "real \<Rightarrow> int" where
  "single_exponent r = max \<lfloor>log 2 \<bar>r\<bar>\<rfloor> (- 126)"

definition single_ulp :: "real \<Rightarrow> real" where
  "single_ulp r = 2 powr of_int (single_exponent r - 23)"

definition round_to_single :: "real \<Rightarrow> real" where
  "round_to_single r =
     (if r = 0 then 0
      else sgn r * (of_int (round_half_even (\<bar>r\<bar> / single_ulp r)) * single_ulp r))"

definition to_single :: "double \<Rightarrow> double" where
  "to_single v =
     (case v of
        Finite r \<Rightarrow>
          if 2 ^ 128 \<le> \<bar>round_to_single r\<bar> then signed_inf (r < 0)
          else Finite (round_to_single r)
      | _ \<Rightarrow> v)"

text \<open>
  A value whose magnitude is at most \<open>2^127\<close>, or an infinity or NaN: its conversion to
  single precision does not overflow.
\<close>

definition single_range :: "double \<Rightarrow> bool" where
  "single_range v = (case v of Finite r \<Rightarrow> \<bar>r\<bar> \<le> 2 ^ 127 | _ \<Rightarrow> True)"

text \<open>
  \<open>v'\<close> is \<open>v\<close> to single-precision accuracy: a finite \<open>v\<close> is met with a relative error
  of at most \<open>2^-24\<close>, or with an absolute error of at most \<open>2^-150\<close> where single
  precision is subnormal; an infinity or NaN is met as it is.
\<close>

definition within_single_precision :: "double \<Rightarrow> double \<Rightarrow> bool" where
  "within_single_precision v v' =
     (case v of
        Finite r \<Rightarrow>
          (case v' of
             Finite r' \<Rightarrow> \<bar>r' - r\<bar> \<le> max (\<bar>r\<bar> / 2 ^ 24) (1 / 2 ^ 150)
           | _ \<Rightarrow> False)
      | _ \<Rightarrow> v' = v)"

section \<open>Notions used to state the properties\<close>

text \<open>
  An image whose axes fit the C type \<open>int\<close>, whose pixel count does too, and whose stored
  sequence has that many values.
\<close>

definition well_formed :: "fits_image \<Rightarrow> bool" where
  "well_formed img =
     (0 \<le> naxis1 img \<and> naxis1 img < 2 ^ 31 \<and> 0 \<le> naxis2 img \<and> naxis2 img < 2 ^ 31 \<and>
      naxis1 img * naxis2 img < 2 ^ 31 \<and>
      int (length (pixels img)) = naxis1 img * naxis2 img)"

text \<open>A world in which the system raises no error in any call.\<close>

definition no_io_error :: "world \<Rightarrow> bool" where
  "no_io_error w =
     list_all (\<lambda>c. raises w c \<le> 0)
       [OpenFile, ReadKeys, ReadPix, CloseFile, CreateFile, CreateImg,
        WriteComment, WriteDate, WritePix]"

text \<open>The image that a successful \<open>SaveVectorAsImage\<close> leaves in the file.\<close>

definition saved_image :: "world \<Rightarrow> double list \<Rightarrow> int \<Rightarrow> int \<Rightarrow> string list \<Rightarrow> fits_image" where
  "saved_image w pixelVector nColumns nRows comments =
     \<lparr>bitpix = FLOAT_IMG, naxis1 = nColumns, naxis2 = nRows, comment_cards = comments,
      has_date = True,
      pixels = map (stored_as w FLOAT_IMG) (take (nat (nColumns * nRows)) pixelVector)\<rparr>"

text \<open>
  Worlds for the examples. The conversion of the examples keeps three binary digits
  after the point; it stands in for the conversion to single precision, which keeps 24
  significant binary digits. \<open>tinyImage\<close> and the two file names are those of the unit
  tests.
\<close>

definition example_conversion :: "int \<Rightarrow> double \<Rightarrow> double" where
  "example_conversion bpix v =
     (case v of Finite r \<Rightarrow> Finite (of_int \<lfloor>r * 8\<rfloor> / 8) | _ \<Rightarrow> v)"

definition quiet_world :: world where
  "quiet_world = \<lparr>files = (\<lambda>_. None), raises = (\<lambda>_. 0), stored_as = example_conversion\<rparr>"

definition failing_world :: "io_call \<Rightarrow> int \<Rightarrow> world \<Rightarrow> world" where
  "failing_world c e w = w\<lparr>raises := (\<lambda>k. if k = c then e else 0)\<rparr>"

definition tinyImage :: "double list" where
  "tinyImage = [Finite 1, Finite 2, Finite 3, Finite 4, Finite 5, Finite 6, Finite 7,
                Finite 8, Finite 9]"

definition TINY_IMAGE_FILENAME :: string where
  "TINY_IMAGE_FILENAME = ''tinyimage_temp.fits''"

definition BAD_IMAGE_NAME :: string where
  "BAD_IMAGE_NAME = ''no_image_with_this_name.fits''"

definition tiny_world :: world where
  "tiny_world =
     quiet_world\<lparr>files := (files quiet_world)
       (TINY_IMAGE_FILENAME \<mapsto> saved_image quiet_world tinyImage 3 3 [])\<rparr>"

text \<open>
  A world without files and errors whose conversion to \<open>FLOAT_IMG\<close> is the conversion
  to single precision. The program creates no image of another pixel type.
\<close>

definition single_precision_world :: world where
  "single_precision_world =
     quiet_world\<lparr>stored_as := (\<lambda>bpix v. if bpix = FLOAT_IMG then to_single v else v)\<rparr>"

text \<open>What a caller of \<open>ReadImageAsVector\<close> receives: the buffer and the two sizes.\<close>

definition map_proc_pixels ::
  "(double list \<times> int \<times> int \<times> world) proc \<Rightarrow> (double list \<times> int \<times> int) proc" where
  "map_proc_pixels p =
     (case p of
        Exit s \<Rightarrow> Exit s
      | Return (buf, nCols, nRows, w) \<Rightarrow> Return (buf, nCols, nRows)
      | Undefined \<Rightarrow> Undefined)"


section \<open>Properties of double arithmetic\<close>

lemma thresholds:
  "UNDERFLOW_THRESHOLD < 1 / 2 ^ 100" "2 ^ 100 < OVERFLOW_THRESHOLD"
  "0 < UNDERFLOW_THRESHOLD" "0 < OVERFLOW_THRESHOLD"
  by (simp_all add: UNDERFLOW_THRESHOLD_def OVERFLOW_THRESHOLD_def)

lemma to_double_in_range: "in_range r \<Longrightarrow> to_double r = Finite r"
  using thresholds(3,4) by (auto simp add: in_range_def to_double_def)

lemma to_double_zero [simp]: "to_double 0 = Finite 0"
  using thresholds(3,4) by (simp add: to_double_def)

lemma to_double_minus: "to_double (- r) = d_neg (to_double r)"
  using thresholds(4) by (auto simp add: to_double_def signed_inf_def)

lemma in_rangeI:
  assumes "1 / 2 ^ 100 \<le> \<bar>r\<bar>" and "\<bar>r\<bar> \<le> 2 ^ 100"
  shows "in_range r"
  using assms thresholds(1,2) by (simp add: in_range_def)

lemma in_range_zero [simp]: "in_range 0"
  by (simp add: in_range_def)

lemma in_range_exp:
  assumes "- (1 / 2) \<le> u" and "u \<le> 0"
  shows "in_range (exp u)"
proof (rule in_rangeI)
  have "1 + u \<le> exp u" by (rule exp_ge_add_one_self)
  with assms(1) have "1 / 2 \<le> exp u" by linarith
  then show "1 / 2 ^ 100 \<le> \<bar>exp u\<bar>" by simp
  from assms(2) have "exp u \<le> 1" by simp
  also have "(1::real) \<le> 2 ^ 100" by simp
  finally show "\<bar>exp u\<bar> \<le> 2 ^ 100" by simp
qed

lemma exp_minus_half_bounds: "1 / 2 \<le> exp (- (1 / 2) :: real)" "exp (- (1 / 2) :: real) \<le> 1"
proof -
  have "1 + (- (1 / 2)) \<le> exp (- (1 / 2) :: real)" by (rule exp_ge_add_one_self)
  then show "1 / 2 \<le> exp (- (1 / 2) :: real)" by simp
  show "exp (- (1 / 2) :: real) \<le> 1" by simp
qed

lemma d_fabs_neg [simp]: "d_fabs (d_neg a) = d_fabs a"
  by (cases a) simp_all

lemma d_mul_NaN_right [simp]: "d_mul a NaN = NaN"
  by (cases a) simp_all

lemma scaled_square_neg:
  "d_mul (d_div a (d_neg s)) (d_div a (d_neg s)) = d_mul (d_div a s) (d_div a s)"
  by (cases a; cases s) (auto simp add: to_double_def signed_inf_def)


section \<open>Properties of the Gaussian-1D function object\<close>

lemma Setup_in_range:
  assumes "0 \<le> off" and "off + 1 < int (length params)"
  shows "Setup ZP params off xc g =
    Inr (g\<lparr>x0 := xc, mu_0 := params ! nat off, sigma := params ! nat (off + 1),
           I_0 := pow_10 (d_mul (Finite (4 / 10)) (d_sub ZP (params ! nat off)))\<rparr>)"
  using assms by (simp add: Setup_def read_param_def add.commute)

lemma Setup_out_of_range:
  assumes "off < 0 \<or> int (length params) \<le> off + 1"
  shows "Setup ZP params off xc g = Inl OutOfBounds"
  using assms by (auto simp add: Setup_def read_param_def split: sum.splits)

lemma Setup_fields:
  assumes "Setup ZP params off xc g = Inr g'"
  shows "x0 g' = xc" and "mu_0 g' = params ! nat off" and "sigma g' = params ! nat (off + 1)"
    and "I_0 g' = pow_10 (d_mul (Finite (4 / 10)) (d_sub ZP (params ! nat off)))"
  using assms by (auto simp add: Setup_def read_param_def add.commute split: sum.splits if_splits)

lemma Gaussian1D_new_fields:
  "nParams (Gaussian1D_new raw) = 2"
  "parameterLabels (Gaussian1D_new raw) = [''mu_0'', ''sigma'']"
  by (simp_all add: Gaussian1D_new_def Let_def N_PARAMS_def push_labels.simps PARAM_LABELS_def)

lemma conversion_exact:
  assumes "Setup_steps_in_range zp m"
  shows "pow_10 (d_mul (Finite (4 / 10)) (d_sub (Finite zp) (Finite m))) =
           Finite (10 powr (4 / 10 * (zp - m)))"
proof -
  have a: "d_sub (Finite zp) (Finite m) = Finite (zp - m)"
    using assms by (simp add: d_sub_def Setup_steps_in_range_def to_double_in_range)
  have b: "d_mul (Finite (4 / 10)) (Finite (zp - m)) = Finite (4 / 10 * (zp - m))"
    using assms to_double_in_range [of "4 / 10 * (zp - m)"]
    by (simp add: Setup_steps_in_range_def)
  have c: "pow_10 (Finite (4 / 10 * (zp - m))) = Finite (10 powr (4 / 10 * (zp - m)))"
    using assms to_double_in_range [of "10 powr (4 / 10 * (zp - m))"]
    by (simp add: Setup_steps_in_range_def)
  from a b c show ?thesis by simp
qed

lemma GetValue_exact:
  assumes g: "x0 g = Finite c" "sigma g = Finite s" "I_0 g = Finite i0"
    and r: "GetValue_steps_in_range i0 c s t"
  shows "fst (GetValue g (Finite t)) = Finite (i0 * exp (- ((t - c)\<^sup>2) / (2 * s\<^sup>2)))"
proof -
  let ?q = "\<bar>t - c\<bar> / s"
  from r have s: "s \<noteq> 0" by (simp add: GetValue_steps_in_range_def)
  have a: "d_sub (Finite t) (x0 g) = Finite (t - c)"
    using r g(1) by (simp add: d_sub_def GetValue_steps_in_range_def to_double_in_range)
  have b: "d_div (d_fabs (Finite (t - c))) (sigma g) = Finite ?q"
    using r g(2) s to_double_in_range [of ?q] by (simp add: GetValue_steps_in_range_def)
  have c: "d_mul (Finite ?q) (Finite ?q) = Finite (?q * ?q)"
    using r to_double_in_range [of "?q * ?q"] by (simp add: GetValue_steps_in_range_def)
  have d: "d_div (d_neg (Finite (?q * ?q))) (Finite 2) = Finite (- (?q * ?q) / 2)"
    using r to_double_in_range [of "- (?q * ?q) / 2"] by (simp add: GetValue_steps_in_range_def)
  have e: "d_exp (Finite (- (?q * ?q) / 2)) = Finite (exp (- (?q * ?q) / 2))"
    using r to_double_in_range [of "exp (- (?q * ?q) / 2)"]
    by (simp add: GetValue_steps_in_range_def)
  have f: "d_mul (I_0 g) (Finite (exp (- (?q * ?q) / 2))) = Finite (i0 * exp (- (?q * ?q) / 2))"
    using r g(3) to_double_in_range [of "i0 * exp (- (?q * ?q) / 2)"]
    by (simp add: GetValue_steps_in_range_def)
  have v: "fst (GetValue g (Finite t)) = Finite (i0 * exp (- (?q * ?q) / 2))"
    unfolding GetValue_def Let_def fst_conv a b c d e f ..
  have "?q * ?q = (t - c)\<^sup>2 / s\<^sup>2"
    by (simp add: power2_eq_square)
  then have "- (?q * ?q) / 2 = - ((t - c)\<^sup>2) / (2 * s\<^sup>2)"
    by simp
  with v show ?thesis by simp
qed

lemma value_after_Setup_exact:
  assumes "0 \<le> off" and "off + 1 < int (length params)" and "params ! nat off = Finite m"
    and "params ! nat (off + 1) = Finite s" and "Setup_steps_in_range zp m"
    and "GetValue_steps_in_range (10 powr (4 / 10 * (zp - m))) c s t"
  shows "value_after_Setup (Finite zp) params off (Finite c) g (Finite t) =
        Inr (Finite (10 powr (4 / 10 * (zp - m)) * exp (- ((t - c)\<^sup>2) / (2 * s\<^sup>2))))"
proof -
  let ?g' = "g\<lparr>x0 := Finite c, mu_0 := params ! nat off, sigma := params ! nat (off + 1),
      I_0 := pow_10 (d_mul (Finite (4 / 10)) (d_sub (Finite zp) (params ! nat off)))\<rparr>"
  have s: "Setup (Finite zp) params off (Finite c) g = Inr ?g'"
    using assms(1,2) by (rule Setup_in_range)
  have i: "I_0 ?g' = Finite (10 powr (4 / 10 * (zp - m)))"
    using conversion_exact [OF assms(5)] assms(3) by simp
  have "fst (GetValue ?g' (Finite t)) =
      Finite (10 powr (4 / 10 * (zp - m)) * exp (- ((t - c)\<^sup>2) / (2 * s\<^sup>2)))"
    using assms(4) by (intro GetValue_exact [OF _ _ i assms(6)]) simp_all
  with s show ?thesis
    unfolding value_after_Setup_def by simp
qed

lemma GetValue_fabs:
  assumes "d_fabs (d_sub x (x0 g)) = d_fabs (d_sub x' (x0 g))"
  shows "fst (GetValue g x) = fst (GetValue g x')"
  using assms by (simp add: GetValue_def Let_def)

lemma GetValue_neg_sigma:
  "fst (GetValue (g\<lparr>sigma := d_neg s\<rparr>) x) = fst (GetValue (g\<lparr>sigma := s\<rparr>) x)"
  by (simp add: GetValue_def Let_def scaled_square_neg)

lemma GetValue_zero_sigma_centre:
  assumes "x0 g = Finite c" and "sigma g = Finite 0"
  shows "fst (GetValue g (Finite c)) = NaN"
  using assms by (simp add: GetValue_def Let_def d_sub_def)

lemma GetValue_zero_sigma_off_centre:
  assumes "x0 g = Finite c" and "sigma g = Finite 0" and "UNDERFLOW_THRESHOLD < \<bar>t - c\<bar>"
  shows "fst (GetValue g (Finite t)) = d_mul (I_0 g) (Finite 0)"
proof -
  have "d_fabs (d_sub (Finite t) (Finite c)) = PosInf
        \<or> (\<exists>r. d_fabs (d_sub (Finite t) (Finite c)) = Finite r \<and> 0 < r)"
    using assms(3) thresholds(3) by (auto simp add: d_sub_def to_double_def signed_inf_def)
  then have "d_div (d_fabs (d_sub (Finite t) (Finite c))) (Finite 0) = PosInf"
    by (auto simp add: signed_inf_def)
  then show ?thesis
    using assms(1,2) by (simp add: GetValue_def Let_def signed_inf_def)
qed

subsection \<open>The scenario of the spec\<close>

lemma scenario_Setup_steps: "Setup_steps_in_range 25 20"
  by (simp add: Setup_steps_in_range_def in_rangeI)

lemma scenario_I_0:
  "pow_10 (d_mul (Finite (4 / 10)) (d_sub (Finite 25) (Finite 20))) = Finite 100"
  using conversion_exact [OF scenario_Setup_steps] by simp

lemma in_range_exp_minus_half:
  "in_range (exp (- (1 / 2)))" "in_range (100 * exp (- (1 / 2)))"
proof -
  show "in_range (exp (- (1 / 2)))"
    by (rule in_range_exp) simp_all
  show "in_range (100 * exp (- (1 / 2)))"
  proof (rule in_rangeI)
    from exp_minus_half_bounds(1) have "50 \<le> 100 * exp (- (1 / 2) :: real)" by simp
    then show "1 / 2 ^ 100 \<le> \<bar>100 * exp (- (1 / 2) :: real)\<bar>" by simp
    from exp_minus_half_bounds(2) have "100 * exp (- (1 / 2) :: real) \<le> 100" by simp
    also have "(100::real) \<le> 2 ^ 100" by simp
    finally show "\<bar>100 * exp (- (1 / 2) :: real)\<bar> \<le> 2 ^ 100" by simp
  qed
qed

lemma scenario_GetValue_steps_19: "GetValue_steps_in_range 100 16 3 19"
  by (simp add: GetValue_steps_in_range_def in_rangeI in_range_exp_minus_half)

lemma scenario_GetValue_steps_16: "GetValue_steps_in_range 100 16 3 16"
  by (simp add: GetValue_steps_in_range_def in_rangeI)

lemma scenario_GetValue_steps_negative: "GetValue_steps_in_range 100 16 (- 3) 19"
  by (simp add: GetValue_steps_in_range_def in_rangeI in_range_exp_minus_half)

lemma scenario_value:
  assumes "x0 g = Finite 16" and "sigma g = Finite 3" and "I_0 g = Finite 100"
  shows "fst (GetValue g (Finite 16)) = Finite 100"
    and "fst (GetValue g (Finite 19)) = Finite (100 * exp (- (1 / 2)))"
  using GetValue_exact [OF assms scenario_GetValue_steps_16]
    GetValue_exact [OF assms scenario_GetValue_steps_19]
  by simp_all

lemma scenario_value_negative:
  assumes "x0 g = Finite 16" and "sigma g = Finite (- 3)" and "I_0 g = Finite 100"
  shows "fst (GetValue g (Finite 19)) = Finite (100 * exp (- (1 / 2)))"
  using GetValue_exact [OF assms scenario_GetValue_steps_negative]
  by simp

subsection \<open>A sum that overflows\<close>

lemma in_range_big: "in_range (2 ^ 1023)" "in_range (- (2 ^ 1023))"
  by (simp_all add: in_range_def OVERFLOW_THRESHOLD_def UNDERFLOW_THRESHOLD_def)

lemma overflow_sum: "d_add (Finite (2 ^ 1023)) (Finite (2 ^ 1023)) = PosInf"
  by (simp add: to_double_def OVERFLOW_THRESHOLD_def signed_inf_def)

lemma cancelling_difference: "d_sub (Finite (2 ^ 1023)) (Finite (2 ^ 1023)) = Finite 0"
  by (simp add: d_sub_def)

lemma centre_distance_steps:
  assumes "0 < b" and "in_range b"
  shows "GetValue_steps_in_range 100 b b 0"
proof -
  from assms(1) have q: "\<bar>0 - b\<bar> / b = 1" by simp
  from assms have "in_range (0 - b)" by (simp add: in_range_def)
  then show ?thesis
    unfolding GetValue_steps_in_range_def q
    using assms(1) by (simp add: in_rangeI in_range_exp_minus_half)
qed

lemma overflow_GetValue_steps: "GetValue_steps_in_range 100 (2 ^ 1023) (2 ^ 1023) 0"
  by (rule centre_distance_steps, simp, rule in_range_big(1))

lemma GetValue_at_infinity:
  assumes "x0 g = Finite c" and "sigma g = Finite s" and "0 < s" and "I_0 g = Finite i"
  shows "fst (GetValue g PosInf) = Finite 0"
  using assms by (simp add: GetValue_def Let_def d_sub_def signed_inf_def)

subsection \<open>The zero-point through the calls of a process\<close>

lemma step_zero_point:
  assumes "step p c = Inr p'"
  shows "zero_point p' = zero_point p"
  using assms by (cases c) (auto split: if_splits sum.splits)

lemma run_zero_point:
  assumes "run p calls = Inr p'"
  shows "zero_point p' = zero_point p"
  using assms
proof (induction calls arbitrary: p)
  case Nil
  then show ?case by simp
next
  case (Cons c cs)
  then obtain q where q: "step p c = Inr q" and r: "run q cs = Inr p'"
    by (auto split: sum.splits)
  from Cons.IH [OF r] step_zero_point [OF q] show ?case by simp
qed

lemma Setup_converted:
  assumes "Setup zp params off xc g = Inr g'"
  shows "converted zp g'"
  using Setup_fields [OF assms] by (simp add: converted_def)

lemma step_Setup_converted:
  assumes "step p (Call_Setup i params off xc) = Inr p'"
  shows "i < length (components p')" and "converted (zero_point p) (components p' ! i)"
  using assms by (auto split: if_splits sum.splits dest: Setup_converted)

lemma step_converted:
  assumes "\<forall>k\<in>set (components p). converted (zero_point p) k" and "step p c = Inr p'"
  shows "\<forall>k\<in>set (components p'). converted (zero_point p') k"
proof (cases c)
  case (Call_Setup i params off xc)
  with assms(2) obtain g' where i: "i < length (components p)"
    and s: "Setup (zero_point p) params off xc (components p ! i) = Inr g'"
    and p': "p' = p\<lparr>components := (components p)[i := g']\<rparr>"
    by (auto split: if_splits sum.splits)
  have "set ((components p)[i := g']) \<subseteq> insert g' (set (components p))"
    by (rule set_update_subset_insert)
  with assms(1) Setup_converted [OF s] p' show ?thesis by auto
next
  case (Call_GetValue i x)
  with assms(2) have "p' = p\<lparr>components := (components p)[i := components p ! i]\<rparr>"
    by (auto simp add: GetValue_def Let_def split: if_splits)
  with assms(1) show ?thesis by simp
qed

lemma run_converted:
  assumes "\<forall>k\<in>set (components p). converted (zero_point p) k" and "run p calls = Inr p'"
  shows "\<forall>k\<in>set (components p'). converted (zero_point p') k"
  using assms
proof (induction calls arbitrary: p)
  case Nil
  then show ?case by simp
next
  case (Cons c cs)
  from Cons.prems(2) obtain q where q: "step p c = Inr q" and r: "run q cs = Inr p'"
    by (auto split: sum.splits)
  from step_converted [OF Cons.prems(1) q] r show ?case by (rule Cons.IH)
qed


subsection \<open>The value of the profile\<close>

text \<open>
  Claim C1. After \<open>Setup\<close> with center \<open>x0\<close>, surface brightness \<open>mu_0\<close> and width
  \<open>sigma\<close>, \<open>GetValue(x)\<close> is \<open>I_0 * exp(-(x - x0)^2 / (2*sigma^2))\<close> with
  \<open>I_0 = 10^(0.4*(ZP - mu_0))\<close>. The first part states this as an equation between
  real numbers, for finite arguments, a width other than zero and values for which no
  step of the computation overflows or underflows; the other two are the scenario
  \<open>x0 = 16\<close>, \<open>mu_0 = 20\<close>, \<open>sigma = 3\<close>, \<open>ZP = 25\<close>, with value 100 at \<open>x = 16\<close> and
  \<open>100 * exp(-0.5)\<close> at \<open>x = 19\<close>.
\<close>

theorem Gaussian1D_GetValue_formula:
  "(0 \<le> off \<and> off + 1 < int (length params) \<and> params ! nat off = Finite m \<and>
    params ! nat (off + 1) = Finite s \<and> Setup_steps_in_range zp m \<and>
    GetValue_steps_in_range (10 powr (4 / 10 * (zp - m))) c s t \<longrightarrow>
      value_after_Setup (Finite zp) params off (Finite c) g (Finite t) =
        Inr (Finite (10 powr (4 / 10 * (zp - m)) * exp (- ((t - c)\<^sup>2) / (2 * s\<^sup>2)))))
   \<and> value_after_Setup (Finite 25) [Finite 20, Finite 3] 0 (Finite 16) g (Finite 16) =
        Inr (Finite 100)
   \<and> value_after_Setup (Finite 25) [Finite 20, Finite 3] 0 (Finite 16) g (Finite 19) =
        Inr (Finite (100 * exp (- (1 / 2))))"
proof (intro conjI impI)
  assume h: "0 \<le> off \<and> off + 1 < int (length params) \<and> params ! nat off = Finite m \<and>
    params ! nat (off + 1) = Finite s \<and> Setup_steps_in_range zp m \<and>
    GetValue_steps_in_range (10 powr (4 / 10 * (zp - m))) c s t"
  then show "value_after_Setup (Finite zp) params off (Finite c) g (Finite t) =
        Inr (Finite (10 powr (4 / 10 * (zp - m)) * exp (- ((t - c)\<^sup>2) / (2 * s\<^sup>2))))"
    by (intro value_after_Setup_exact) simp_all
next
  have "value_after_Setup (Finite 25) [Finite 20, Finite 3] 0 (Finite 16) g (Finite 16) =
      Inr (Finite (10 powr (4 / 10 * (25 - 20)) * exp (- ((16 - 16)\<^sup>2) / (2 * 3\<^sup>2))))"
    by (intro value_after_Setup_exact)
       (simp_all add: scenario_Setup_steps scenario_GetValue_steps_16)
  then show "value_after_Setup (Finite 25) [Finite 20, Finite 3] 0 (Finite 16) g (Finite 16) =
        Inr (Finite 100)"
    by simp
next
  have "value_after_Setup (Finite 25) [Finite 20, Finite 3] 0 (Finite 16) g (Finite 19) =
      Inr (Finite (10 powr (4 / 10 * (25 - 20)) * exp (- ((19 - 16)\<^sup>2) / (2 * 3\<^sup>2))))"
    by (intro value_after_Setup_exact)
       (simp_all add: scenario_Setup_steps scenario_GetValue_steps_19)
  then show "value_after_Setup (Finite 25) [Finite 20, Finite 3] 0 (Finite 16) g (Finite 19) =
        Inr (Finite (100 * exp (- (1 / 2))))"
    by simp
qed

theorem Gaussian1D_GetValue_formula_witness:
  "value_after_Setup (Finite 25) [Finite 0, Finite 20, Finite 3] 1 (Finite 16)
        unset_Gaussian1D (Finite 19) =
       Inr (Finite (10 powr (4 / 10 * (25 - 20)) * exp (- ((19 - 16)\<^sup>2) / (2 * 3\<^sup>2))))"
proof -
  have h: "0 \<le> (1::int) \<and> 1 + 1 < int (length [Finite 0, Finite 20, Finite 3]) \<and>
      [Finite 0, Finite 20, Finite 3] ! nat 1 = Finite 20 \<and>
      [Finite 0, Finite 20, Finite 3] ! nat (1 + 1) = Finite 3 \<and>
      Setup_steps_in_range 25 20 \<and>
      GetValue_steps_in_range (10 powr (4 / 10 * (25 - 20))) 16 3 19"
    using scenario_Setup_steps scenario_GetValue_steps_19 by simp
  from Gaussian1D_GetValue_formula
    [where off = 1 and params = "[Finite 0, Finite 20, Finite 3]" and m = 20 and s = 3
       and zp = 25 and c = 16 and t = 19 and g = unset_Gaussian1D,
     THEN conjunct1, THEN mp, OF h]
  show ?thesis .
qed

subsection \<open>Magnitudes and the zero-point\<close>

text \<open>
  Claim C2. A component whose flux parameter is a magnitude converts it in \<open>Setup\<close> by
  \<open>I_0 = 10^(0.4*(ZP - mu))\<close>, where \<open>ZP\<close> is the one zero-point of the process, 25.0 by
  default and not modified after model construction. The Gaussian-1D component is the one
  such component of the source files. In order: \<open>Setup\<close> converts by this formula, in the
  arithmetic of doubles; for finite values whose conversion neither overflows nor
  underflows the result is the real number \<open>10^(0.4*(ZP - mu))\<close>; a process is
  constructed with the zero-point 25.0 unless one is configured; no sequence of \<open>Setup\<close>
  and \<open>GetValue\<close> calls changes the zero-point of the process; every \<open>Setup\<close> of the
  process converts with that zero-point; and components converted with it stay so
  through every sequence of calls.
\<close>

theorem Setup_magnitude_to_intensity:
  "(Setup ZP params off xc g = Inr g' \<longrightarrow>
      I_0 g' = pow_10 (d_mul (Finite (4 / 10)) (d_sub ZP (mu_0 g'))))
   \<and> (0 \<le> off \<and> off + 1 < int (length params) \<and> params ! nat off = Finite m \<and>
       Setup_steps_in_range zp m \<longrightarrow>
        map_sum id I_0 (Setup (Finite zp) params off xc g) =
          Inr (Finite (10 powr (4 / 10 * (zp - m)))))
   \<and> zero_point (new_process None raws) = Finite 25
   \<and> zero_point (new_process (Some zp') raws) = zp'
   \<and> (run p calls = Inr p' \<longrightarrow> zero_point p' = zero_point p)
   \<and> (step p (Call_Setup i params off xc) = Inr p'' \<longrightarrow>
        i < length (components p'') \<and> converted (zero_point p) (components p'' ! i))
   \<and> ((\<forall>k\<in>set (components p). converted (zero_point p) k) \<and> run p calls = Inr p' \<longrightarrow>
        (\<forall>k\<in>set (components p'). converted (zero_point p') k))"
proof (intro conjI impI)
  show "I_0 g' = pow_10 (d_mul (Finite (4 / 10)) (d_sub ZP (mu_0 g')))"
    if "Setup ZP params off xc g = Inr g'"
    using Setup_fields [OF that] by simp
  show "map_sum id I_0 (Setup (Finite zp) params off xc g) =
          Inr (Finite (10 powr (4 / 10 * (zp - m))))"
    if "0 \<le> off \<and> off + 1 < int (length params) \<and> params ! nat off = Finite m \<and>
       Setup_steps_in_range zp m"
    using that conversion_exact [of zp m] by (simp add: Setup_in_range)
  show "zero_point (new_process None raws) = Finite 25"
    by (simp add: new_process_def ZP_default_def)
  show "zero_point (new_process (Some zp') raws) = zp'"
    by (simp add: new_process_def)
  show "zero_point p' = zero_point p" if "run p calls = Inr p'"
    using that by (rule run_zero_point)
  show "i < length (components p'')" "converted (zero_point p) (components p'' ! i)"
    if "step p (Call_Setup i params off xc) = Inr p''"
    using step_Setup_converted [OF that] by simp_all
  show "\<forall>k\<in>set (components p'). converted (zero_point p') k"
    if "(\<forall>k\<in>set (components p). converted (zero_point p) k) \<and> run p calls = Inr p'"
    using that run_converted by blast
qed

theorem Setup_magnitude_to_intensity_witness:
  "map_sum id I_0 (Setup (Finite 25) [Finite 20, Finite 3] 0 (Finite 16) unset_Gaussian1D) =
       Inr (pow_10 (d_mul (Finite (4 / 10)) (d_sub (Finite 25) (Finite 20))))
   \<and> map_sum id I_0 (Setup (Finite 25) [Finite 20, Finite 3] 0 (Finite 16) unset_Gaussian1D) =
       Inr (Finite (10 powr (4 / 10 * (25 - 20))))
   \<and> map_sum id zero_point
        (run (new_process None [unset_Gaussian1D])
           [Call_Setup 0 [Finite 20, Finite 3] 0 (Finite 16), Call_GetValue 0 (Finite 19)]) =
       Inr (Finite 25)
   \<and> map_sum id (\<lambda>q. list_all (converted (Finite 25)) (components q))
        (run (new_process None [unset_Gaussian1D])
           [Call_Setup 0 [Finite 20, Finite 3] 0 (Finite 16), Call_GetValue 0 (Finite 19)]) =
       Inr True"
proof -
  let ?fresh = "Gaussian1D_new unset_Gaussian1D"
  let ?g = "?fresh\<lparr>x0 := Finite 16, mu_0 := Finite 20, sigma := Finite 3, I_0 := Finite 100\<rparr>"
  let ?u = "unset_Gaussian1D\<lparr>x0 := Finite 16, mu_0 := Finite 20, sigma := Finite 3,
                              I_0 := Finite 100\<rparr>"
  let ?start = "new_process None [unset_Gaussian1D]"
  let ?after = "?start\<lparr>components := [?g]\<rparr>"
  let ?cs = "[Call_Setup 0 [Finite 20, Finite 3] 0 (Finite 16), Call_GetValue 0 (Finite 19)]"
  have s: "Setup (Finite 25) [Finite 20, Finite 3] 0 (Finite 16) unset_Gaussian1D = Inr ?u"
    using scenario_I_0 by (simp add: Setup_in_range)
  from Setup_magnitude_to_intensity
    [where ZP = "Finite 25" and params = "[Finite 20, Finite 3]" and off = 0
       and xc = "Finite 16" and g = unset_Gaussian1D and g' = ?u, THEN conjunct1, THEN mp, OF s]
  have a: "map_sum id I_0 (Setup (Finite 25) [Finite 20, Finite 3] 0 (Finite 16)
      unset_Gaussian1D) = Inr (pow_10 (d_mul (Finite (4 / 10)) (d_sub (Finite 25) (Finite 20))))"
    by (simp add: s)
  have h: "0 \<le> (0::int) \<and> 0 + 1 < int (length [Finite 20, Finite 3]) \<and>
      [Finite 20, Finite 3] ! nat 0 = Finite 20 \<and> Setup_steps_in_range 25 20"
    using scenario_Setup_steps by simp
  from Setup_magnitude_to_intensity
    [where params = "[Finite 20, Finite 3]" and off = 0 and m = 20 and zp = 25
       and xc = "Finite 16" and g = unset_Gaussian1D,
     THEN conjunct2, THEN conjunct1, THEN mp, OF h]
  have b: "map_sum id I_0 (Setup (Finite 25) [Finite 20, Finite 3] 0 (Finite 16)
      unset_Gaussian1D) = Inr (Finite (10 powr (4 / 10 * (25 - 20))))" .
  from Setup_magnitude_to_intensity [where raws = "[unset_Gaussian1D]",
     THEN conjunct2, THEN conjunct2, THEN conjunct1]
  have z: "zero_point ?start = Finite 25" .
  have c0: "components ?start = [?fresh]"
    by (simp add: new_process_def)
  have st: "step ?start (Call_Setup 0 [Finite 20, Finite 3] 0 (Finite 16)) = Inr ?after"
    using scenario_I_0 by (simp add: z c0 Setup_in_range)
  have gv: "step ?after (Call_GetValue 0 (Finite 19)) = Inr ?after"
    by (simp add: GetValue_def Let_def)
  then have r2: "run ?after [Call_GetValue 0 (Finite 19)] = Inr ?after"
    by simp
  have r1: "run ?start ?cs = Inr ?after"
    unfolding run.simps st sum.case gv ..
  from Setup_magnitude_to_intensity [where p = ?start and p' = ?after and calls = ?cs,
     THEN conjunct2, THEN conjunct2, THEN conjunct2, THEN conjunct2, THEN conjunct1,
     THEN mp, OF r1]
  have c: "zero_point ?after = Finite 25"
    by (simp add: z)
  from Setup_magnitude_to_intensity
    [where p = ?start and p'' = ?after and i = 0 and params = "[Finite 20, Finite 3]" and off = 0
       and xc = "Finite 16",
     THEN conjunct2, THEN conjunct2, THEN conjunct2, THEN conjunct2, THEN conjunct2,
     THEN conjunct1, THEN mp, OF st]
  have d: "converted (Finite 25) ?g"
    by (simp add: z)
  then have d': "\<forall>k\<in>set (components ?after). converted (zero_point ?after) k"
    by (simp add: c)
  from Setup_magnitude_to_intensity
    [where p = ?after and p' = ?after and calls = "[Call_GetValue 0 (Finite 19)]",
     THEN conjunct2, THEN conjunct2, THEN conjunct2, THEN conjunct2, THEN conjunct2,
     THEN conjunct2, THEN mp, OF conjI, OF d' r2]
  have e: "\<forall>k\<in>set (components ?after). converted (zero_point ?after) k" .
  then have e': "list_all (converted (Finite 25)) (components ?after)"
    by (simp add: c)
  from a b c e' show ?thesis
    unfolding r1 by simp
qed

subsection \<open>Arity, labels and the parameters read\<close>

text \<open>
  Claim C4. The Gaussian-1D component declares two parameters, labelled \<open>mu_0\<close> and
  \<open>sigma\<close> in that order. \<open>Setup\<close> sets \<open>mu_0 = params[offset]\<close>,
  \<open>sigma = params[offset+1]\<close> and \<open>x0 = xc\<close>, and reads no other element of the parameter
  vector: two vectors that agree at these two indices give the same result.
\<close>

theorem Gaussian1D_arity_labels_reads:
  "nParams (Gaussian1D_new raw) = 2
   \<and> parameterLabels (Gaussian1D_new raw) = [''mu_0'', ''sigma'']
   \<and> (0 \<le> off \<and> off + 1 < int (length params) \<longrightarrow>
        map_sum id (\<lambda>g'. (mu_0 g', sigma g', x0 g')) (Setup ZP params off xc g) =
          Inr (params ! nat off, params ! nat (off + 1), xc))
   \<and> (0 \<le> off \<and> off + 1 < int (length params) \<and> off + 1 < int (length params') \<and>
        params' ! nat off = params ! nat off \<and>
        params' ! nat (off + 1) = params ! nat (off + 1) \<longrightarrow>
        Setup ZP params' off xc g = Setup ZP params off xc g)"
  by (simp add: Gaussian1D_new_fields Setup_in_range)

theorem Gaussian1D_arity_labels_reads_witness:
  "map_sum id (\<lambda>g'. (mu_0 g', sigma g', x0 g'))
      (Setup (Finite 25) [Finite 7, Finite 20, Finite 3] 1 (Finite 16) unset_Gaussian1D) =
     Inr (Finite 20, Finite 3, Finite 16)
   \<and> Setup (Finite 25) [Finite 8, Finite 20, Finite 3, Finite 9] 1 (Finite 16) unset_Gaussian1D =
     Setup (Finite 25) [Finite 7, Finite 20, Finite 3] 1 (Finite 16) unset_Gaussian1D"
proof -
  have h: "0 \<le> (1::int) \<and> 1 + 1 < int (length [Finite 7, Finite 20, Finite 3]) \<and>
      1 + 1 < int (length [Finite 8, Finite 20, Finite 3, Finite 9]) \<and>
      [Finite 8, Finite 20, Finite 3, Finite 9] ! nat 1 = [Finite 7, Finite 20, Finite 3] ! nat 1 \<and>
      [Finite 8, Finite 20, Finite 3, Finite 9] ! nat (1 + 1) =
        [Finite 7, Finite 20, Finite 3] ! nat (1 + 1)"
    by simp
  from h Gaussian1D_arity_labels_reads
    [of unset_Gaussian1D 1 "[Finite 7, Finite 20, Finite 3]" "Finite 25" "Finite 16"
        unset_Gaussian1D "[Finite 8, Finite 20, Finite 3, Finite 9]"]
  show ?thesis by simp
qed

subsection \<open>Widths outside the physical domain\<close>

text \<open>
  Claim C5 says that with \<open>sigma \<le> 0\<close> the component returns NaN or a sentinel for every
  pixel. It does not: with \<open>sigma = -3\<close> the value at \<open>x = 19\<close> is the finite number
  \<open>100 * exp(-0.5)\<close>, the very value that \<open>sigma = 3\<close> gives.
\<close>

theorem negative_sigma_counterexample:
  "value_after_Setup (Finite 25) [Finite 20, Finite (- 3)] 0 (Finite 16) unset_Gaussian1D
       (Finite 19) = Inr (Finite (100 * exp (- (1 / 2))))
   \<and> value_after_Setup (Finite 25) [Finite 20, Finite 3] 0 (Finite 16) unset_Gaussian1D
       (Finite 19) = Inr (Finite (100 * exp (- (1 / 2))))
   \<and> \<not> is_nan (Finite (100 * exp (- (1 / 2))))"
proof (intro conjI)
  have "value_after_Setup (Finite 25) [Finite 20, Finite (- 3)] 0 (Finite 16) unset_Gaussian1D
      (Finite 19) =
      Inr (Finite (10 powr (4 / 10 * (25 - 20)) * exp (- ((19 - 16)\<^sup>2) / (2 * (- 3)\<^sup>2))))"
    by (intro value_after_Setup_exact)
       (simp_all add: scenario_Setup_steps scenario_GetValue_steps_negative)
  then show "value_after_Setup (Finite 25) [Finite 20, Finite (- 3)] 0 (Finite 16)
      unset_Gaussian1D (Finite 19) = Inr (Finite (100 * exp (- (1 / 2))))"
    by simp
  have "value_after_Setup (Finite 25) [Finite 20, Finite 3] 0 (Finite 16) unset_Gaussian1D
      (Finite 19) =
      Inr (Finite (10 powr (4 / 10 * (25 - 20)) * exp (- ((19 - 16)\<^sup>2) / (2 * 3\<^sup>2))))"
    by (intro value_after_Setup_exact)
       (simp_all add: scenario_Setup_steps scenario_GetValue_steps_19)
  then show "value_after_Setup (Finite 25) [Finite 20, Finite 3] 0 (Finite 16)
      unset_Gaussian1D (Finite 19) = Inr (Finite (100 * exp (- (1 / 2))))"
    by simp
  show "\<not> is_nan (Finite (100 * exp (- (1 / 2))))"
    by (simp add: is_nan_def)
qed

text \<open>
  Claim C5, amended. \<open>Setup\<close> and \<open>GetValue\<close> make no check of the width. With
  \<open>sigma < 0\<close>, \<open>GetValue\<close> returns at every \<open>x\<close> the value that it returns with
  \<open>|sigma|\<close>. With \<open>sigma = 0\<close> it returns NaN at \<open>x = x0\<close>, and at a finite \<open>x\<close> other
  than \<open>x0\<close> it returns the product of \<open>I_0\<close> and 0: that is 0 when \<open>I_0\<close> is finite and
  NaN when it is not.
\<close>

theorem nonpositive_sigma_value:
  "(0 \<le> off \<and> off + 1 < int (length params) \<and> off + 1 < int (length params') \<and>
    params' ! nat off = params ! nat off \<and> params ! nat (off + 1) = Finite s \<and> s < 0 \<and>
    params' ! nat (off + 1) = Finite \<bar>s\<bar> \<longrightarrow>
      value_after_Setup ZP params off xc g x = value_after_Setup ZP params' off xc g x)
   \<and> (0 \<le> off \<and> off + 1 < int (length params) \<and> params ! nat (off + 1) = Finite 0 \<longrightarrow>
      value_after_Setup ZP params off (Finite c) g (Finite c) = Inr NaN)
   \<and> (0 \<le> off \<and> off + 1 < int (length params) \<and> params ! nat (off + 1) = Finite 0 \<and>
       UNDERFLOW_THRESHOLD < \<bar>t - c\<bar> \<longrightarrow>
      value_after_Setup ZP params off (Finite c) g (Finite t) =
        Inr (case pow_10 (d_mul (Finite (4 / 10)) (d_sub ZP (params ! nat off))) of
               Finite i0 \<Rightarrow> Finite 0
             | _ \<Rightarrow> NaN))"
proof (intro conjI impI)
  assume h: "0 \<le> off \<and> off + 1 < int (length params) \<and> off + 1 < int (length params') \<and>
    params' ! nat off = params ! nat off \<and> params ! nat (off + 1) = Finite s \<and> s < 0 \<and>
    params' ! nat (off + 1) = Finite \<bar>s\<bar>"
  then have "params ! nat (off + 1) = d_neg (params' ! nat (off + 1))"
    by simp
  with h show "value_after_Setup ZP params off xc g x = value_after_Setup ZP params' off xc g x"
    by (simp add: value_after_Setup_def Setup_in_range GetValue_def Let_def scaled_square_neg
        del: d_neg.simps)
next
  assume "0 \<le> off \<and> off + 1 < int (length params) \<and> params ! nat (off + 1) = Finite 0"
  then show "value_after_Setup ZP params off (Finite c) g (Finite c) = Inr NaN"
    by (simp add: value_after_Setup_def Setup_in_range GetValue_zero_sigma_centre)
next
  assume h: "0 \<le> off \<and> off + 1 < int (length params) \<and> params ! nat (off + 1) = Finite 0 \<and>
       UNDERFLOW_THRESHOLD < \<bar>t - c\<bar>"
  let ?i = "pow_10 (d_mul (Finite (4 / 10)) (d_sub ZP (params ! nat off)))"
  have "d_mul ?i (Finite 0) = (case ?i of Finite i0 \<Rightarrow> Finite 0 | _ \<Rightarrow> NaN)"
    by (cases ?i) simp_all
  with h show "value_after_Setup ZP params off (Finite c) g (Finite t) =
        Inr (case ?i of Finite i0 \<Rightarrow> Finite 0 | _ \<Rightarrow> NaN)"
    by (simp add: value_after_Setup_def Setup_in_range GetValue_zero_sigma_off_centre)
qed

theorem nonpositive_sigma_value_witness:
  "value_after_Setup (Finite 25) [Finite 20, Finite (- 3)] 0 (Finite 16) unset_Gaussian1D
       (Finite 22) =
     value_after_Setup (Finite 25) [Finite 20, Finite 3] 0 (Finite 16) unset_Gaussian1D
       (Finite 22)
   \<and> value_after_Setup (Finite 25) [Finite 20, Finite 0] 0 (Finite 16) unset_Gaussian1D
       (Finite 16) = Inr NaN
   \<and> value_after_Setup (Finite 25) [Finite 20, Finite 0] 0 (Finite 16) unset_Gaussian1D
       (Finite 19) = Inr (Finite 0)"
proof -
  have h1: "0 \<le> (0::int) \<and> 0 + 1 < int (length [Finite 20, Finite (- 3)]) \<and>
      0 + 1 < int (length [Finite 20, Finite 3]) \<and>
      [Finite 20, Finite 3] ! nat 0 = [Finite 20, Finite (- 3)] ! nat 0 \<and>
      [Finite 20, Finite (- 3)] ! nat (0 + 1) = Finite (- 3) \<and> (- 3 :: real) < 0 \<and>
      [Finite 20, Finite 3] ! nat (0 + 1) = Finite \<bar>- 3\<bar>"
    by simp
  have h2: "0 \<le> (0::int) \<and> 0 + 1 < int (length [Finite 20, Finite 0]) \<and>
      [Finite 20, Finite 0] ! nat (0 + 1) = Finite 0"
    by simp
  have h3: "0 \<le> (0::int) \<and> 0 + 1 < int (length [Finite 20, Finite 0]) \<and>
      [Finite 20, Finite 0] ! nat (0 + 1) = Finite 0 \<and>
      UNDERFLOW_THRESHOLD < \<bar>19 - 16 :: real\<bar>"
    using thresholds(1) by simp
  from nonpositive_sigma_value
    [where off = 0 and params = "[Finite 20, Finite (- 3)]" and params' = "[Finite 20, Finite 3]"
       and s = "- 3" and ZP = "Finite 25" and xc = "Finite 16" and g = unset_Gaussian1D
       and x = "Finite 22", THEN conjunct1, THEN mp, OF h1]
  have a: "value_after_Setup (Finite 25) [Finite 20, Finite (- 3)] 0 (Finite 16)
      unset_Gaussian1D (Finite 22) =
     value_after_Setup (Finite 25) [Finite 20, Finite 3] 0 (Finite 16) unset_Gaussian1D
       (Finite 22)" .
  from nonpositive_sigma_value
    [where off = 0 and params = "[Finite 20, Finite 0]" and ZP = "Finite 25" and c = 16
       and g = unset_Gaussian1D, THEN conjunct2, THEN conjunct1, THEN mp, OF h2]
  have b: "value_after_Setup (Finite 25) [Finite 20, Finite 0] 0 (Finite 16) unset_Gaussian1D
       (Finite 16) = Inr NaN" .
  from nonpositive_sigma_value
    [where off = 0 and params = "[Finite 20, Finite 0]" and ZP = "Finite 25" and c = 16
       and t = 19 and g = unset_Gaussian1D, THEN conjunct2, THEN conjunct2, THEN mp, OF h3]
  have c: "value_after_Setup (Finite 25) [Finite 20, Finite 0] 0 (Finite 16) unset_Gaussian1D
       (Finite 19) = Inr (Finite 0)"
    using scenario_I_0 by simp
  from a b c show ?thesis by simp
qed

subsection \<open>Purity and symmetry\<close>

text \<open>
  Claim C7. After a \<open>Setup\<close>, \<open>GetValue\<close> is a function of its coordinate alone: a call
  leaves the object as it found it, and a second call with the same \<open>x\<close> returns the
  value of the first.
\<close>

theorem GetValue_pure:
  "snd (GetValue g x) = g
   \<and> fst (GetValue (snd (GetValue g x)) x) = fst (GetValue g x)
   \<and> snd (GetValue (snd (GetValue g x)) x') = g"
  by (simp add: GetValue_def Let_def)

text \<open>
  Claim C9 says that \<open>GetValue(x0 + d)\<close> equals \<open>GetValue(x0 - d)\<close> for any \<open>Setup\<close>
  parameters and any offset \<open>d\<close>. It does not when the sum overflows: with
  \<open>x0 = d = sigma = 2^1023\<close> the sum \<open>x0 + d\<close> is infinite and the value there is 0, while
  \<open>x0 - d\<close> is 0 and the value there is \<open>100 * exp(-0.5)\<close>.
\<close>

theorem symmetry_overflow_counterexample:
  "value_after_Setup (Finite 25) [Finite 20, Finite (2 ^ 1023)] 0 (Finite (2 ^ 1023))
       unset_Gaussian1D (d_add (Finite (2 ^ 1023)) (Finite (2 ^ 1023))) = Inr (Finite 0)
   \<and> value_after_Setup (Finite 25) [Finite 20, Finite (2 ^ 1023)] 0 (Finite (2 ^ 1023))
       unset_Gaussian1D (d_sub (Finite (2 ^ 1023)) (Finite (2 ^ 1023))) =
         Inr (Finite (100 * exp (- (1 / 2))))
   \<and> Finite 0 \<noteq> Finite (100 * exp (- (1 / 2)))"
proof (intro conjI)
  let ?g = "unset_Gaussian1D\<lparr>x0 := Finite (2 ^ 1023), mu_0 := [Finite 20, Finite (2 ^ 1023)] ! nat 0,
      sigma := [Finite 20, Finite (2 ^ 1023)] ! nat (0 + 1),
      I_0 := pow_10 (d_mul (Finite (4 / 10))
        (d_sub (Finite 25) ([Finite 20, Finite (2 ^ 1023)] ! nat 0)))\<rparr>"
  have s: "Setup (Finite 25) [Finite 20, Finite (2 ^ 1023)] 0 (Finite (2 ^ 1023))
      unset_Gaussian1D = Inr ?g"
    by (rule Setup_in_range) simp_all
  have i: "I_0 ?g = Finite 100"
    using scenario_I_0 by simp
  have "fst (GetValue ?g PosInf) = Finite 0"
    by (rule GetValue_at_infinity [where c = "2 ^ 1023" and s = "2 ^ 1023" and i = 100],
        simp, simp, simp, rule i)
  then show "value_after_Setup (Finite 25) [Finite 20, Finite (2 ^ 1023)] 0 (Finite (2 ^ 1023))
       unset_Gaussian1D (d_add (Finite (2 ^ 1023)) (Finite (2 ^ 1023))) = Inr (Finite 0)"
    unfolding value_after_Setup_def s overflow_sum by simp
  have "fst (GetValue ?g (Finite 0)) =
      Finite (100 * exp (- ((0 - 2 ^ 1023)\<^sup>2) / (2 * (2 ^ 1023)\<^sup>2)))"
    by (rule GetValue_exact [OF _ _ i overflow_GetValue_steps]) simp_all
  then have "fst (GetValue ?g (Finite 0)) = Finite (100 * exp (- (1 / 2)))"
    by simp
  then show "value_after_Setup (Finite 25) [Finite 20, Finite (2 ^ 1023)] 0
       (Finite (2 ^ 1023)) unset_Gaussian1D (d_sub (Finite (2 ^ 1023)) (Finite (2 ^ 1023))) =
         Inr (Finite (100 * exp (- (1 / 2))))"
    unfolding value_after_Setup_def s cancelling_difference by simp
  show "Finite 0 \<noteq> Finite (100 * exp (- (1 / 2)))"
    by simp
qed

text \<open>
  Claim C9, amended. The value depends on \<open>x\<close> only through \<open>fabs(x - x0)\<close> as the
  program computes it: two arguments with the same \<open>fabs(x - x0)\<close> have the same value.
  So \<open>GetValue(x0 + d) = GetValue(x0 - d)\<close> whenever \<open>x0 + d\<close> and \<open>x0 - d\<close> lie at the
  same computed distance from \<open>x0\<close>, as they do when \<open>(x0 + d) - x0 = d\<close> and
  \<open>(x0 - d) - x0 = -d\<close> in the arithmetic of doubles. And \<open>Setup\<close> with \<open>sigma = s\<close> and
  with \<open>sigma = -s\<close> give the same value at every \<open>x\<close>.
\<close>

theorem Gaussian1D_symmetric:
  "(d_fabs (d_sub x (x0 g)) = d_fabs (d_sub x' (x0 g)) \<longrightarrow>
       fst (GetValue g x) = fst (GetValue g x'))
   \<and> (d_sub (d_add (x0 g) d) (x0 g) = d \<and> d_sub (d_sub (x0 g) d) (x0 g) = d_neg d \<longrightarrow>
       fst (GetValue g (d_add (x0 g) d)) = fst (GetValue g (d_sub (x0 g) d)))
   \<and> (0 \<le> off \<and> off + 1 < int (length params) \<and> off + 1 < int (length params') \<and>
        params' ! nat off = params ! nat off \<and>
        params' ! nat (off + 1) = d_neg (params ! nat (off + 1)) \<longrightarrow>
        value_after_Setup ZP params' off xc g0 x = value_after_Setup ZP params off xc g0 x)"
proof (intro conjI impI)
  assume "d_fabs (d_sub x (x0 g)) = d_fabs (d_sub x' (x0 g))"
  then show "fst (GetValue g x) = fst (GetValue g x')"
    by (rule GetValue_fabs)
next
  assume "d_sub (d_add (x0 g) d) (x0 g) = d \<and> d_sub (d_sub (x0 g) d) (x0 g) = d_neg d"
  then have "d_fabs (d_sub (d_add (x0 g) d) (x0 g)) = d_fabs (d_sub (d_sub (x0 g) d) (x0 g))"
    by simp
  then show "fst (GetValue g (d_add (x0 g) d)) = fst (GetValue g (d_sub (x0 g) d))"
    by (rule GetValue_fabs)
next
  assume "0 \<le> off \<and> off + 1 < int (length params) \<and> off + 1 < int (length params') \<and>
        params' ! nat off = params ! nat off \<and>
        params' ! nat (off + 1) = d_neg (params ! nat (off + 1))"
  then show "value_after_Setup ZP params' off xc g0 x = value_after_Setup ZP params off xc g0 x"
    by (simp add: value_after_Setup_def Setup_in_range GetValue_def Let_def scaled_square_neg)
qed

theorem Gaussian1D_symmetric_witness:
  "fst (GetValue (unset_Gaussian1D\<lparr>x0 := Finite 16, sigma := Finite 3, I_0 := Finite 100\<rparr>)
          (Finite 13)) =
   fst (GetValue (unset_Gaussian1D\<lparr>x0 := Finite 16, sigma := Finite 3, I_0 := Finite 100\<rparr>)
          (Finite 19))
   \<and> fst (GetValue (unset_Gaussian1D\<lparr>x0 := Finite 16, sigma := Finite 3, I_0 := Finite 100\<rparr>)
          (d_add (Finite 16) (Finite 3))) =
     fst (GetValue (unset_Gaussian1D\<lparr>x0 := Finite 16, sigma := Finite 3, I_0 := Finite 100\<rparr>)
          (d_sub (Finite 16) (Finite 3)))
   \<and> value_after_Setup (Finite 25) [Finite 20, Finite (- 3)] 0 (Finite 16) unset_Gaussian1D
        (Finite 13) =
     value_after_Setup (Finite 25) [Finite 20, Finite 3] 0 (Finite 16) unset_Gaussian1D
        (Finite 13)"
proof -
  let ?g = "unset_Gaussian1D\<lparr>x0 := Finite 16, sigma := Finite 3, I_0 := Finite 100\<rparr>"
  have x: "x0 ?g = Finite 16" by simp
  have h1: "d_fabs (d_sub (Finite 13) (x0 ?g)) = d_fabs (d_sub (Finite 19) (x0 ?g))"
    by (simp add: d_sub_def to_double_in_range in_rangeI)
  have h2: "d_sub (d_add (x0 ?g) (Finite 3)) (x0 ?g) = Finite 3 \<and>
      d_sub (d_sub (x0 ?g) (Finite 3)) (x0 ?g) = d_neg (Finite 3)"
    by (simp add: d_sub_def to_double_in_range in_rangeI)
  have h3: "0 \<le> (0::int) \<and> 0 + 1 < int (length [Finite 20, Finite 3]) \<and>
      0 + 1 < int (length [Finite 20, Finite (- 3)]) \<and>
      [Finite 20, Finite (- 3)] ! nat 0 = [Finite 20, Finite 3] ! nat 0 \<and>
      [Finite 20, Finite (- 3)] ! nat (0 + 1) = d_neg ([Finite 20, Finite 3] ! nat (0 + 1))"
    by simp
  from Gaussian1D_symmetric [where x = "Finite 13" and g = ?g and x' = "Finite 19",
      THEN conjunct1, THEN mp, OF h1]
  have a: "fst (GetValue ?g (Finite 13)) = fst (GetValue ?g (Finite 19))" .
  from Gaussian1D_symmetric [where g = ?g and d = "Finite 3",
      THEN conjunct2, THEN conjunct1, THEN mp, OF h2]
  have b: "fst (GetValue ?g (d_add (Finite 16) (Finite 3))) =
      fst (GetValue ?g (d_sub (Finite 16) (Finite 3)))"
    unfolding x .
  from Gaussian1D_symmetric [where off = 0 and params = "[Finite 20, Finite 3]"
      and params' = "[Finite 20, Finite (- 3)]" and ZP = "Finite 25" and xc = "Finite 16"
      and ?g0.0 = unset_Gaussian1D and x = "Finite 13",
      THEN conjunct2, THEN conjunct2, THEN mp, OF h3]
  have c: "value_after_Setup (Finite 25) [Finite 20, Finite (- 3)] 0 (Finite 16)
      unset_Gaussian1D (Finite 13) =
     value_after_Setup (Finite 25) [Finite 20, Finite 3] 0 (Finite 16) unset_Gaussian1D
        (Finite 13)" .
  from a b c show ?thesis by simp
qed



section \<open>Properties of image_io.cpp\<close>

lemma check_status [simp]:
  "proc_bind (if s \<noteq> 0 then PrintError s else Return ()) f =
     (if s \<noteq> 0 then Exit s else f ())"
  by (simp add: proc_bind_def PrintError_def)

lemma long_to_int_id:
  assumes "0 \<le> v" and "v < 2 ^ 31"
  shows "long_to_int v = v"
  using assms by (simp add: long_to_int_def signed_take_bit_int_eq_self)

lemma int_mul_id:
  assumes "0 \<le> a" and "0 \<le> b" and "a * b < 2 ^ 31"
  shows "int_mul a b = a * b"
proof -
  have "0 \<le> a * b" using assms by simp
  then have "- (2 ^ 31) \<le> a * b" by simp
  then show ?thesis using assms(3)
    unfolding int_mul_def by (rule signed_take_bit_int_eq_self)
qed

lemma int_mul_le:
  assumes "0 \<le> a" and "0 \<le> b"
  shows "int_mul a b \<le> a * b"
proof -
  have "0 \<le> a * b" using assms by simp
  then have "- (2 ^ 31) \<le> a * b" by simp
  then show ?thesis by (simp add: int_mul_def signed_take_bit_int_less_eq_self_iff)
qed

lemma well_formed_length:
  "well_formed img \<Longrightarrow> nat (naxis1 img * naxis2 img) = length (pixels img)"
  by (simp add: well_formed_def nat_eq_iff)

lemma row_major_index:
  fixes i j nc nr :: int
  assumes "0 \<le> i" and "i < nc" and "0 \<le> j" and "j < nr"
  shows "j * nc + i < nc * nr" and "0 \<le> j * nc + i"
proof -
  have "(j + 1) * nc \<le> nr * nc"
    using assms by (intro mult_right_mono) simp_all
  then show "j * nc + i < nc * nr"
    using assms by (simp add: algebra_simps)
  show "0 \<le> j * nc + i" using assms by simp
qed

subsection \<open>ReadImageAsVector\<close>

lemma Read_open_raises:
  assumes "0 < raises w OpenFile"
  shows "ReadImageAsVector fn vb w = Exit (raises w OpenFile)"
  using assms by (simp add: ReadImageAsVector_def fits_open_file_def)

lemma Read_no_file:
  assumes "raises w OpenFile \<le> 0" and "files w fn = None"
  shows "ReadImageAsVector fn vb w = Exit FILE_NOT_OPENED"
  using assms by (simp add: ReadImageAsVector_def fits_open_file_def FILE_NOT_OPENED_def)

lemma Read_keys_raises:
  assumes "raises w OpenFile \<le> 0" and "files w fn = Some img" and "0 < raises w ReadKeys"
  shows "ReadImageAsVector fn vb w = Exit (raises w ReadKeys)"
  using assms by (simp add: ReadImageAsVector_def fits_open_file_def fits_read_keys_lng_def)

lemma Read_pix_raises:
  assumes "raises w OpenFile \<le> 0" and "files w fn = Some img" and "raises w ReadKeys \<le> 0"
    and "0 < raises w ReadPix"
  shows "ReadImageAsVector fn vb w = Exit (raises w ReadPix)"
  using assms
  by (simp add: ReadImageAsVector_def fits_open_file_def fits_read_keys_lng_def
      fits_read_pix_def Let_def)

lemma Read_close_raises:
  assumes "raises w OpenFile \<le> 0" and "files w fn = Some img" and "raises w ReadKeys \<le> 0"
    and "raises w ReadPix \<le> 0" and "well_formed img" and "0 < raises w CloseFile"
  shows "ReadImageAsVector fn vb w = Exit (raises w CloseFile)"
  using assms
  by (simp add: ReadImageAsVector_def fits_open_file_def fits_read_keys_lng_def
      fits_read_pix_def Let_def well_formed_def long_to_int_id int_mul_id TDOUBLE_def
      fits_close_file_def)

lemma Read_succeeds:
  assumes "raises w OpenFile \<le> 0" and "files w fn = Some img" and "raises w ReadKeys \<le> 0"
    and "raises w ReadPix \<le> 0" and "well_formed img" and "raises w CloseFile \<le> 0"
  shows "ReadImageAsVector fn vb w = Return (pixels img, naxis1 img, naxis2 img, w)"
  using assms well_formed_length [OF assms(5)]
  by (simp add: ReadImageAsVector_def fits_open_file_def fits_read_keys_lng_def
      fits_read_pix_def Let_def well_formed_def long_to_int_id int_mul_id TDOUBLE_def
      fits_close_file_def READONLY_def)

lemma Read_Exit_nonzero:
  assumes "ReadImageAsVector fn vb w = Exit s"
  shows "s \<noteq> 0"
  using assms
  by (auto simp add: ReadImageAsVector_def Let_def split: prod.splits list.splits if_splits)

lemma Read_Return_no_failure:
  assumes "ReadImageAsVector fn vb w = Return r"
  shows "raises w OpenFile \<le> 0 \<and> files w fn \<noteq> None \<and> raises w ReadKeys \<le> 0 \<and>
         raises w ReadPix \<le> 0 \<and> raises w CloseFile \<le> 0"
  using assms
  by (auto simp add: ReadImageAsVector_def Let_def fits_open_file_def fits_read_keys_lng_def
      fits_read_pix_def fits_close_file_def
      split: prod.splits list.splits if_splits option.splits)

subsection \<open>SaveVectorAsImage\<close>

lemma write_comments_skip:
  "0 < status \<Longrightarrow> write_comments fptr cs status w = (status, fptr)"
  by (induction cs) (simp_all add: fits_write_comment_def)

lemma write_comments_fault:
  assumes "status \<le> 0" and "0 < raises w WriteComment" and "cs \<noteq> []"
  shows "write_comments (Some f) cs status w = (raises w WriteComment, Some f)"
  using assms by (cases cs) (simp_all add: fits_write_comment_def write_comments_skip)

lemma write_comments_ok:
  assumes "status \<le> 0" and "raises w WriteComment \<le> 0" and "hdu f = Some img"
  shows "write_comments (Some f) cs status w =
     (status, Some (f\<lparr>hdu := Some (img\<lparr>comment_cards := comment_cards img @ cs\<rparr>)\<rparr>))"
  using assms
proof (induction cs arbitrary: f img)
  case Nil
  then show ?case by simp
next
  case (Cons c cs)
  then show ?case by (simp add: fits_write_comment_def)
qed

lemmas Save_defs =
  SaveVectorAsImage_def Let_def fits_create_file_def fits_create_img_def
  fits_write_date_def fits_write_pix_def FLOAT_IMG_def

lemma Save_create_raises:
  assumes "0 < raises w CreateFile"
  shows "SaveVectorAsImage pix fn nc nr cms w = Exit (raises w CreateFile)"
  using assms by (simp add: Save_defs write_comments_skip)

lemma Save_img_raises:
  assumes "raises w CreateFile \<le> 0" and "0 < raises w CreateImg"
  shows "SaveVectorAsImage pix fn nc nr cms w = Exit (raises w CreateImg)"
  using assms by (simp add: Save_defs write_comments_skip)

lemma Save_negative_axis:
  assumes "raises w CreateFile \<le> 0" and "raises w CreateImg \<le> 0" and "nc < 0 \<or> nr < 0"
  shows "SaveVectorAsImage pix fn nc nr cms w = Exit BAD_NAXES"
  using assms by (auto simp add: Save_defs write_comments_skip BAD_NAXES_def)

lemma Save_comment_raises:
  assumes "raises w CreateFile \<le> 0" and "raises w CreateImg \<le> 0" and "0 \<le> nc" and "0 \<le> nr"
    and "cms \<noteq> []" and "0 < raises w WriteComment"
  shows "SaveVectorAsImage pix fn nc nr cms w = Exit (raises w WriteComment)"
  using assms by (simp add: Save_defs write_comments_fault)

lemma Save_date_raises:
  assumes "raises w CreateFile \<le> 0" and "raises w CreateImg \<le> 0" and "0 \<le> nc" and "0 \<le> nr"
    and "cms \<noteq> [] \<longrightarrow> raises w WriteComment \<le> 0" and "0 < raises w WriteDate"
  shows "SaveVectorAsImage pix fn nc nr cms w = Exit (raises w WriteDate)"
proof (cases "cms = []")
  case True
  with assms show ?thesis by (simp add: Save_defs)
next
  case False
  with assms show ?thesis by (simp add: Save_defs write_comments_ok)
qed

lemma Save_write_raises:
  assumes "raises w CreateFile \<le> 0" and "raises w CreateImg \<le> 0" and "0 \<le> nc" and "0 \<le> nr"
    and "cms \<noteq> [] \<longrightarrow> raises w WriteComment \<le> 0" and "raises w WriteDate \<le> 0"
    and "0 < raises w WritePix"
  shows "SaveVectorAsImage pix fn nc nr cms w = Exit (raises w WritePix)"
proof (cases "cms = []")
  case True
  with assms show ?thesis by (simp add: Save_defs)
next
  case False
  with assms show ?thesis by (simp add: Save_defs write_comments_ok)
qed

lemma Save_short_vector:
  assumes "raises w CreateFile \<le> 0" and "raises w CreateImg \<le> 0" and "0 \<le> nc" and "0 \<le> nr"
    and "cms \<noteq> [] \<longrightarrow> raises w WriteComment \<le> 0" and "raises w WriteDate \<le> 0"
    and "raises w WritePix \<le> 0" and "int (length pix) < int_mul nc nr"
  shows "SaveVectorAsImage pix fn nc nr cms w = Undefined"
proof (cases "cms = []")
  case True
  with assms int_mul_le [of nc nr] show ?thesis
    by (simp add: Save_defs TDOUBLE_def)
next
  case False
  with assms int_mul_le [of nc nr] show ?thesis
    by (simp add: Save_defs write_comments_ok TDOUBLE_def)
qed

lemma Save_close_raises:
  assumes "raises w CreateFile \<le> 0" and "raises w CreateImg \<le> 0" and "0 \<le> nc" and "0 \<le> nr"
    and "cms \<noteq> [] \<longrightarrow> raises w WriteComment \<le> 0" and "raises w WriteDate \<le> 0"
    and "raises w WritePix \<le> 0" and "int_mul nc nr \<le> int (length pix)"
    and "0 < raises w CloseFile"
  shows "SaveVectorAsImage pix fn nc nr cms w = Exit (raises w CloseFile)"
proof (cases "cms = []")
  case True
  with assms int_mul_le [of nc nr] show ?thesis
    by (simp add: Save_defs TDOUBLE_def fits_close_file_def)
next
  case False
  with assms int_mul_le [of nc nr] show ?thesis
    by (simp add: Save_defs write_comments_ok TDOUBLE_def fits_close_file_def)
qed

lemma Save_succeeds:
  assumes "raises w CreateFile \<le> 0" and "raises w CreateImg \<le> 0" and "0 \<le> nc" and "0 \<le> nr"
    and "nc * nr < 2 ^ 31" and "raises w WriteComment \<le> 0" and "raises w WriteDate \<le> 0"
    and "raises w WritePix \<le> 0" and "raises w CloseFile \<le> 0"
    and "nc * nr \<le> int (length pix)"
  shows "SaveVectorAsImage pix fn nc nr cms w =
     Return (w\<lparr>files := (files w)(fn \<mapsto> saved_image w pix nc nr cms)\<rparr>)"
  using assms
  by (simp add: Save_defs write_comments_ok int_mul_id TDOUBLE_def fits_close_file_def
      READWRITE_def READONLY_def saved_image_def)

lemma Save_Exit_nonzero:
  assumes "SaveVectorAsImage pix fn nc nr cms w = Exit s"
  shows "s \<noteq> 0"
  using assms
  by (auto simp add: SaveVectorAsImage_def Let_def split: prod.splits if_splits option.splits)

lemma Save_Return_no_failure:
  assumes r: "SaveVectorAsImage pix fn nc nr cms w = Return w'"
  shows "raises w CreateFile \<le> 0 \<and> raises w CreateImg \<le> 0 \<and> 0 \<le> nc \<and> 0 \<le> nr \<and>
         (cms \<noteq> [] \<longrightarrow> raises w WriteComment \<le> 0) \<and>
         raises w WriteDate \<le> 0 \<and> raises w WritePix \<le> 0 \<and> raises w CloseFile \<le> 0 \<and>
         int_mul nc nr \<le> int (length pix)"
proof -
  have a: "raises w CreateFile \<le> 0"
    using r Save_create_raises [of w pix fn nc nr cms]
    by (cases "0 < raises w CreateFile") simp_all
  have b: "raises w CreateImg \<le> 0"
    using r a Save_img_raises [of w pix fn nc nr cms]
    by (cases "0 < raises w CreateImg") simp_all
  have c: "0 \<le> nc \<and> 0 \<le> nr"
    using r a b Save_negative_axis [of w nc nr pix fn cms]
    by (cases "nc < 0 \<or> nr < 0") simp_all
  have d: "cms \<noteq> [] \<longrightarrow> raises w WriteComment \<le> 0"
    using r a b c Save_comment_raises [of w nc nr cms pix fn]
    by (cases "0 < raises w WriteComment") auto
  have e: "raises w WriteDate \<le> 0"
    using r a b c d Save_date_raises [of w nc nr cms pix fn]
    by (cases "0 < raises w WriteDate") simp_all
  have f: "raises w WritePix \<le> 0"
    using r a b c d e Save_write_raises [of w nc nr cms pix fn]
    by (cases "0 < raises w WritePix") simp_all
  have g: "int_mul nc nr \<le> int (length pix)"
    using r a b c d e f Save_short_vector [of w nc nr cms pix fn]
    by (cases "int (length pix) < int_mul nc nr") simp_all
  have h: "raises w CloseFile \<le> 0"
    using r a b c d e f g Save_close_raises [of w nc nr cms pix fn]
    by (cases "0 < raises w CloseFile") simp_all
  from a b c d e f g h show ?thesis by simp
qed

lemma saved_image_well_formed:
  assumes "0 \<le> nc" and "nc < 2 ^ 31" and "0 \<le> nr" and "nr < 2 ^ 31" and "nc * nr < 2 ^ 31"
    and "int (length pix) = nc * nr"
  shows "well_formed (saved_image w pix nc nr cms)"
  using assms by (simp add: well_formed_def saved_image_def)

lemma saved_image_pixel:
  assumes "0 \<le> i" and "i < nc" and "0 \<le> j" and "j < nr" and "int (length pix) = nc * nr"
  shows "pixel_at (saved_image w pix nc nr cms) (i + 1) (j + 1) =
           stored_as w FLOAT_IMG (pix ! nat (j * nc + i))"
proof -
  have "j * nc + i < nc * nr" and "0 \<le> j * nc + i"
    using assms by (simp_all add: row_major_index)
  then have "nat (j * nc + i) < length pix"
    using assms(5) by simp
  then show ?thesis
    using assms(5) by (simp add: pixel_at_def saved_image_def algebra_simps)
qed

subsection \<open>The worlds of the examples\<close>

lemma failing_world_simps [simp]:
  "raises (failing_world c e w) k = (if k = c then e else 0)"
  "files (failing_world c e w) = files w"
  "stored_as (failing_world c e w) = stored_as w"
  by (simp_all add: failing_world_def)

lemma quiet_world_simps [simp]:
  "raises quiet_world k = 0"
  "files quiet_world name = None"
  "stored_as quiet_world = example_conversion"
  by (simp_all add: quiet_world_def)

lemma tiny_world_simps [simp]:
  "raises tiny_world k = 0"
  "files tiny_world TINY_IMAGE_FILENAME = Some (saved_image quiet_world tinyImage 3 3 [])"
  "files tiny_world BAD_IMAGE_NAME = None"
  "stored_as tiny_world = example_conversion"
  by (simp_all add: tiny_world_def TINY_IMAGE_FILENAME_def BAD_IMAGE_NAME_def)

lemma tiny_image_stored:
  "saved_image quiet_world tinyImage 3 3 [] =
     \<lparr>bitpix = FLOAT_IMG, naxis1 = 3, naxis2 = 3, comment_cards = [], has_date = True,
      pixels = tinyImage\<rparr>"
  by (simp add: saved_image_def tinyImage_def example_conversion_def)

lemma tiny_image_well_formed: "well_formed (saved_image quiet_world tinyImage 3 3 [])"
  by (rule saved_image_well_formed) (simp_all add: tinyImage_def)

lemma no_io_error_simps [simp]:
  "no_io_error quiet_world" "no_io_error tiny_world"
  by (simp_all add: no_io_error_def)

lemma tiny_world_saved:
  "SaveVectorAsImage tinyImage TINY_IMAGE_FILENAME 3 3 [] quiet_world = Return tiny_world"
  by (simp add: Save_succeeds tiny_world_def tinyImage_def)

lemma tiny_world_read:
  "ReadImageAsVector TINY_IMAGE_FILENAME False tiny_world = Return (tinyImage, 3, 3, tiny_world)"
  using Read_succeeds [of tiny_world TINY_IMAGE_FILENAME "saved_image quiet_world tinyImage 3 3 []" False]
  by (simp add: tiny_image_well_formed) (simp add: tiny_image_stored)

subsection \<open>The order of the pixels\<close>

lemma pixel_at_row_major:
  "pixel_at img (i + 1) (j + 1) = pixels img ! nat (j * naxis1 img + i)"
  by (simp add: pixel_at_def algebra_simps)

lemma pixel_at_first: "pixel_at img 1 1 = pixels img ! 0"
  by (simp add: pixel_at_def)

lemma pixel_at_last:
  "pixel_at img (naxis1 img) (naxis2 img) = pixels img ! nat (naxis1 img * naxis2 img - 1)"
  by (simp add: pixel_at_def algebra_simps)

lemma no_io_error_raises: "no_io_error w \<Longrightarrow> raises w c \<le> 0"
  by (cases c) (simp_all add: no_io_error_def)

lemma Read_quiet:
  assumes "no_io_error w" and "files w fn = Some img" and "well_formed img"
  shows "ReadImageAsVector fn vb w = Return (pixels img, naxis1 img, naxis2 img, w)"
  using assms by (intro Read_succeeds) (simp_all add: no_io_error_raises)

lemma Save_quiet:
  assumes "no_io_error w" and "0 \<le> nc" and "0 \<le> nr" and "nc * nr < 2 ^ 31"
    and "nc * nr \<le> int (length pix)"
  shows "SaveVectorAsImage pix fn nc nr cms w =
     Return (w\<lparr>files := (files w)(fn \<mapsto> saved_image w pix nc nr cms)\<rparr>)"
  using assms by (intro Save_succeeds) (simp_all add: no_io_error_raises)

lemma no_io_error_files [simp]: "no_io_error (w\<lparr>files := f\<rparr>) = no_io_error w"
  by (simp add: no_io_error_def)

lemma map_fixes: "map f xs = xs \<longleftrightarrow> (\<forall>x\<in>set xs. f x = x)"
  by (induction xs) auto

subsection \<open>The conversion to single precision\<close>

lemma round_half_even_error: "\<bar>of_int (round_half_even y) - y\<bar> \<le> 1 / 2"
  by (auto simp add: round_half_even_def Let_def)

lemma single_ulp_pos: "0 < single_ulp r"
  by (simp add: single_ulp_def)

lemma round_to_single_error: "\<bar>round_to_single r - r\<bar> \<le> single_ulp r / 2"
proof (cases "r = 0")
  case True
  then show ?thesis using single_ulp_pos [of r] by (simp add: round_to_single_def)
next
  case False
  let ?q = "single_ulp r"
  let ?n = "of_int (round_half_even (\<bar>r\<bar> / ?q)) :: real"
  have q: "0 < ?q" by (rule single_ulp_pos)
  have "round_to_single r - r = sgn r * (?n * ?q - \<bar>r\<bar>)"
    using False by (simp add: round_to_single_def right_diff_distrib mult_sgn_abs)
  then have "\<bar>round_to_single r - r\<bar> = \<bar>?n * ?q - \<bar>r\<bar>\<bar>"
    using False by (simp add: abs_mult)
  also have "?n * ?q - \<bar>r\<bar> = (?n - \<bar>r\<bar> / ?q) * ?q"
    using q by (simp add: algebra_simps)
  also have "\<bar>(?n - \<bar>r\<bar> / ?q) * ?q\<bar> = \<bar>?n - \<bar>r\<bar> / ?q\<bar> * ?q"
    using q by (simp add: abs_mult)
  also have "\<dots> \<le> 1 / 2 * ?q"
    using round_half_even_error [of "\<bar>r\<bar> / ?q"] q by (intro mult_right_mono) simp_all
  finally show ?thesis by simp
qed

lemma single_exponent_normal:
  assumes "1 / 2 ^ 126 \<le> \<bar>r\<bar>"
  shows "2 powr of_int (single_exponent r) \<le> \<bar>r\<bar>"
proof -
  from assms have pos: "0 < \<bar>r\<bar>"
    by (smt (verit) zero_less_power divide_pos_pos)
  have "2 powr (- 126) = 1 / (2::real) ^ 126"
    by (simp add: powr_minus_divide)
  with assms have "2 powr (- 126) \<le> \<bar>r\<bar>" by simp
  then have "- 126 \<le> log 2 \<bar>r\<bar>"
    using pos by (simp add: le_log_iff)
  then have "(- 126 :: int) \<le> \<lfloor>log 2 \<bar>r\<bar>\<rfloor>"
    by (simp add: le_floor_iff)
  then have e: "single_exponent r = \<lfloor>log 2 \<bar>r\<bar>\<rfloor>"
    by (simp add: single_exponent_def)
  have "2 powr of_int \<lfloor>log 2 \<bar>r\<bar>\<rfloor> \<le> 2 powr log 2 \<bar>r\<bar>"
    by (intro powr_mono) simp_all
  also have "\<dots> = \<bar>r\<bar>"
    using pos by simp
  finally show ?thesis unfolding e .
qed

lemma single_ulp_split: "single_ulp r / 2 = 2 powr of_int (single_exponent r) / 2 ^ 24"
proof -
  have "single_ulp r = 2 powr of_int (single_exponent r) * 2 powr (- 23)"
    by (simp add: single_ulp_def powr_add [symmetric])
  also have "2 powr (- 23) = 1 / (2::real) ^ 23"
    by (simp add: powr_minus_divide)
  finally show ?thesis by simp
qed

lemma round_to_single_normal:
  assumes "1 / 2 ^ 126 \<le> \<bar>r\<bar>"
  shows "\<bar>round_to_single r - r\<bar> \<le> \<bar>r\<bar> / 2 ^ 24"
proof -
  have "\<bar>round_to_single r - r\<bar> \<le> 2 powr of_int (single_exponent r) / 2 ^ 24"
    using round_to_single_error [of r] by (simp only: single_ulp_split)
  also have "\<dots> \<le> \<bar>r\<bar> / 2 ^ 24"
    using single_exponent_normal [OF assms] by (simp add: divide_right_mono)
  finally show ?thesis .
qed

lemma round_to_single_subnormal:
  assumes "\<bar>r\<bar> < 1 / 2 ^ 126"
  shows "\<bar>round_to_single r - r\<bar> \<le> 1 / 2 ^ 150"
proof (cases "r = 0")
  case True
  then show ?thesis by (simp add: round_to_single_def)
next
  case False
  then have pos: "0 < \<bar>r\<bar>" by simp
  have "2 powr (- 126) = 1 / (2::real) ^ 126"
    by (simp add: powr_minus_divide)
  with assms have "\<bar>r\<bar> < 2 powr (- 126)" by simp
  then have "log 2 \<bar>r\<bar> < - 126"
    using pos by (simp add: log_less_iff)
  then have "\<lfloor>log 2 \<bar>r\<bar>\<rfloor> \<le> - 126"
    by (simp add: floor_le_iff)
  then have e: "single_exponent r = - 126"
    by (simp add: single_exponent_def)
  have "2 powr (- 126) / (2::real) ^ 24 = 1 / 2 ^ 150"
    by (simp add: powr_minus_divide)
  then show ?thesis
    using round_to_single_error [of r] by (simp only: single_ulp_split e) simp
qed

lemma round_to_single_bound:
  "\<bar>round_to_single r - r\<bar> \<le> max (\<bar>r\<bar> / 2 ^ 24) (1 / 2 ^ 150)"
  using round_to_single_normal [of r] round_to_single_subnormal [of r]
  by (cases "1 / 2 ^ 126 \<le> \<bar>r\<bar>") (simp_all add: max_def)

lemma single_exponent_unit:
  assumes "1 \<le> r" and "r < 2"
  shows "single_exponent r = 0"
proof -
  from assms have "0 \<le> log 2 r" by simp
  moreover from assms have "log 2 r < 1" by (simp add: log_less_iff)
  ultimately have "\<lfloor>log 2 r\<rfloor> = 0" by (simp add: floor_eq_iff)
  with assms show ?thesis by (simp add: single_exponent_def)
qed

lemma round_to_single_one: "round_to_single 1 = 1"
  by (simp add: round_to_single_def single_ulp_def single_exponent_unit round_half_even_def
      powr_minus_divide)

lemma round_to_single_near_one:
  assumes "1 \<le> r" and "r < 1 + 1 / 2 ^ 24"
  shows "round_to_single r = 1"
proof -
  from assms have e: "single_exponent r = 0"
    by (intro single_exponent_unit) simp_all
  have q: "single_ulp r = 1 / 2 ^ 23"
    by (simp add: single_ulp_def e powr_minus_divide)
  from assms have "2 ^ 23 \<le> r * 2 ^ 23" and "r * 2 ^ 23 < 2 ^ 23 + 1 / 2"
    by simp_all
  then have f: "\<lfloor>r * 2 ^ 23\<rfloor> = 2 ^ 23" and "r * 2 ^ 23 - 2 ^ 23 < 1 / 2"
    by (simp_all add: floor_eq_iff)
  then have "round_half_even (r * 2 ^ 23) = 2 ^ 23"
    by (simp add: round_half_even_def)
  moreover from assms have "\<bar>r\<bar> = r" and "sgn r = 1" and "r \<noteq> 0"
    by simp_all
  ultimately show ?thesis
    by (simp add: round_to_single_def q)
qed

lemma round_to_single_lossy: "round_to_single (1 + 1 / 2 ^ 30) = 1"
  by (rule round_to_single_near_one) simp_all

lemma to_single_one: "to_single (Finite 1) = Finite 1"
  by (simp add: to_single_def round_to_single_one)

lemma to_single_lossy: "to_single (Finite (1 + 1 / 2 ^ 30)) = Finite 1"
  using round_to_single_lossy by (simp add: to_single_def)

lemma round_to_single_finite:
  assumes "\<bar>r\<bar> \<le> 2 ^ 127"
  shows "\<bar>round_to_single r\<bar> < 2 ^ 128"
proof -
  have "\<bar>r\<bar> / 2 ^ 24 \<le> 2 ^ 127 / 2 ^ 24"
    using assms by (simp add: divide_right_mono)
  then have "max (\<bar>r\<bar> / 2 ^ 24) (1 / 2 ^ 150) \<le> 2 ^ 103"
    by simp
  with round_to_single_bound [of r] have "\<bar>round_to_single r - r\<bar> \<le> 2 ^ 103"
    by linarith
  with assms have "\<bar>round_to_single r\<bar> \<le> 2 ^ 127 + 2 ^ 103"
    by linarith
  then show ?thesis by simp
qed

lemma to_single_within:
  assumes "single_range v"
  shows "within_single_precision v (to_single v)"
proof (cases v)
  case (Finite r)
  with assms have "\<bar>r\<bar> \<le> 2 ^ 127" by (simp add: single_range_def)
  then have "\<bar>round_to_single r\<bar> < 2 ^ 128" by (rule round_to_single_finite)
  then have "to_single v = Finite (round_to_single r)"
    using Finite by (simp add: to_single_def)
  then show ?thesis
    using Finite round_to_single_bound [of r] by (simp add: within_single_precision_def)
qed (simp_all add: within_single_precision_def to_single_def)

lemma single_precision_world_simps [simp]:
  "files single_precision_world fn = None" "raises single_precision_world c = 0"
  "stored_as single_precision_world FLOAT_IMG = to_single"
  "no_io_error single_precision_world"
  by (simp_all add: single_precision_world_def quiet_world_def no_io_error_def)


subsection \<open>Failures end the process\<close>

text \<open>
  Claim C6. Every failure in \<open>ReadImageAsVector\<close> and \<open>SaveVectorAsImage\<close> (file
  open, keyword read, pixel read, pixel write, file close) reaches \<open>PrintError\<close>, which
  ends the process by \<open>exit(status)\<close> with a status other than zero; nothing is returned
  to the caller. In order: \<open>PrintError\<close> exits on a status other than zero; the four
  failures of \<open>ReadImageAsVector\<close> (opening, when the system raises an error or the file
  is not there; reading the keywords; reading the pixels; closing) each end in \<open>exit\<close>
  with the status of the failed call; so do the two tested failures of
  \<open>SaveVectorAsImage\<close> (writing the pixels, closing), for sizes whose product fits an
  \<open>int\<close> and, once the pixels are read from it, a vector that holds that many values; a
  function that returns has met no failure, in the untested calls of \<open>SaveVectorAsImage\<close>
  either; and the status of an exit is never zero.
\<close>

theorem exit_on_error:
  "(status \<noteq> 0 \<longrightarrow> PrintError status = Exit status)
   \<and> (0 < raises w OpenFile \<longrightarrow> ReadImageAsVector fn vb w = Exit (raises w OpenFile))
   \<and> (raises w OpenFile \<le> 0 \<and> files w fn = None \<longrightarrow>
        ReadImageAsVector fn vb w = Exit FILE_NOT_OPENED)
   \<and> (raises w OpenFile \<le> 0 \<and> files w fn = Some img \<and> 0 < raises w ReadKeys \<longrightarrow>
        ReadImageAsVector fn vb w = Exit (raises w ReadKeys))
   \<and> (raises w OpenFile \<le> 0 \<and> files w fn = Some img \<and> raises w ReadKeys \<le> 0 \<and>
       0 < raises w ReadPix \<longrightarrow>
        ReadImageAsVector fn vb w = Exit (raises w ReadPix))
   \<and> (raises w OpenFile \<le> 0 \<and> files w fn = Some img \<and> raises w ReadKeys \<le> 0 \<and>
       raises w ReadPix \<le> 0 \<and> well_formed img \<and> 0 < raises w CloseFile \<longrightarrow>
        ReadImageAsVector fn vb w = Exit (raises w CloseFile))
   \<and> (raises w CreateFile \<le> 0 \<and> raises w CreateImg \<le> 0 \<and> 0 \<le> nc \<and> 0 \<le> nr \<and>
       nc * nr < 2 ^ 31 \<and>
       (cms \<noteq> [] \<longrightarrow> raises w WriteComment \<le> 0) \<and> raises w WriteDate \<le> 0 \<and>
       0 < raises w WritePix \<longrightarrow>
        SaveVectorAsImage pix fn nc nr cms w = Exit (raises w WritePix))
   \<and> (raises w CreateFile \<le> 0 \<and> raises w CreateImg \<le> 0 \<and> 0 \<le> nc \<and> 0 \<le> nr \<and>
       (cms \<noteq> [] \<longrightarrow> raises w WriteComment \<le> 0) \<and> raises w WriteDate \<le> 0 \<and>
       raises w WritePix \<le> 0 \<and> nc * nr < 2 ^ 31 \<and> nc * nr \<le> int (length pix) \<and>
       0 < raises w CloseFile \<longrightarrow>
        SaveVectorAsImage pix fn nc nr cms w = Exit (raises w CloseFile))
   \<and> (ReadImageAsVector fn vb w = Return r \<longrightarrow>
        raises w OpenFile \<le> 0 \<and> files w fn \<noteq> None \<and> raises w ReadKeys \<le> 0 \<and>
        raises w ReadPix \<le> 0 \<and> raises w CloseFile \<le> 0)
   \<and> (SaveVectorAsImage pix fn nc nr cms w = Return w' \<longrightarrow>
        raises w CreateFile \<le> 0 \<and> raises w CreateImg \<le> 0 \<and> 0 \<le> nc \<and> 0 \<le> nr \<and>
        (cms \<noteq> [] \<longrightarrow> raises w WriteComment \<le> 0) \<and>
        raises w WriteDate \<le> 0 \<and> raises w WritePix \<le> 0 \<and> raises w CloseFile \<le> 0)
   \<and> (ReadImageAsVector fn vb w = Exit s \<longrightarrow> s \<noteq> 0)
   \<and> (SaveVectorAsImage pix fn nc nr cms w = Exit s \<longrightarrow> s \<noteq> 0)"
proof (intro conjI impI)
  show "PrintError status = Exit status" if "status \<noteq> 0"
    using that by (simp add: PrintError_def)
  show "ReadImageAsVector fn vb w = Exit (raises w OpenFile)" if "0 < raises w OpenFile"
    using that by (rule Read_open_raises)
  show "ReadImageAsVector fn vb w = Exit FILE_NOT_OPENED"
    if "raises w OpenFile \<le> 0 \<and> files w fn = None"
    using that by (simp add: Read_no_file)
  show "ReadImageAsVector fn vb w = Exit (raises w ReadKeys)"
    if "raises w OpenFile \<le> 0 \<and> files w fn = Some img \<and> 0 < raises w ReadKeys"
    using that by (simp add: Read_keys_raises)
  show "ReadImageAsVector fn vb w = Exit (raises w ReadPix)"
    if "raises w OpenFile \<le> 0 \<and> files w fn = Some img \<and> raises w ReadKeys \<le> 0 \<and>
        0 < raises w ReadPix"
    using that by (simp add: Read_pix_raises)
  show "ReadImageAsVector fn vb w = Exit (raises w CloseFile)"
    if "raises w OpenFile \<le> 0 \<and> files w fn = Some img \<and> raises w ReadKeys \<le> 0 \<and>
        raises w ReadPix \<le> 0 \<and> well_formed img \<and> 0 < raises w CloseFile"
    using that by (simp add: Read_close_raises)
  show "SaveVectorAsImage pix fn nc nr cms w = Exit (raises w WritePix)"
    if "raises w CreateFile \<le> 0 \<and> raises w CreateImg \<le> 0 \<and> 0 \<le> nc \<and> 0 \<le> nr \<and>
        nc * nr < 2 ^ 31 \<and>
        (cms \<noteq> [] \<longrightarrow> raises w WriteComment \<le> 0) \<and> raises w WriteDate \<le> 0 \<and>
        0 < raises w WritePix"
    using that by (intro Save_write_raises) simp_all
  show "SaveVectorAsImage pix fn nc nr cms w = Exit (raises w CloseFile)"
    if "raises w CreateFile \<le> 0 \<and> raises w CreateImg \<le> 0 \<and> 0 \<le> nc \<and> 0 \<le> nr \<and>
        (cms \<noteq> [] \<longrightarrow> raises w WriteComment \<le> 0) \<and> raises w WriteDate \<le> 0 \<and>
        raises w WritePix \<le> 0 \<and> nc * nr < 2 ^ 31 \<and> nc * nr \<le> int (length pix) \<and>
        0 < raises w CloseFile"
    using that by (intro Save_close_raises) (simp_all add: int_mul_id)
  show "raises w OpenFile \<le> 0" "files w fn \<noteq> None" "raises w ReadKeys \<le> 0"
    "raises w ReadPix \<le> 0" "raises w CloseFile \<le> 0"
    if "ReadImageAsVector fn vb w = Return r"
    using Read_Return_no_failure [OF that] by simp_all
  show "raises w CreateFile \<le> 0" "raises w CreateImg \<le> 0" "0 \<le> nc" "0 \<le> nr"
    "raises w WriteDate \<le> 0" "raises w WritePix \<le> 0" "raises w CloseFile \<le> 0"
    if "SaveVectorAsImage pix fn nc nr cms w = Return w'"
    using Save_Return_no_failure [OF that] by simp_all
  show "raises w WriteComment \<le> 0"
    if "SaveVectorAsImage pix fn nc nr cms w = Return w'" and "cms \<noteq> []"
    using Save_Return_no_failure [OF that(1)] that(2) by simp
  show "s \<noteq> 0" if "ReadImageAsVector fn vb w = Exit s"
    using that by (rule Read_Exit_nonzero)
  show "s \<noteq> 0" if "SaveVectorAsImage pix fn nc nr cms w = Exit s"
    using that by (rule Save_Exit_nonzero)
qed

theorem exit_on_error_witness:
  "PrintError 104 = Exit 104
   \<and> ReadImageAsVector TINY_IMAGE_FILENAME False (failing_world OpenFile 104 tiny_world) = Exit 104
   \<and> ReadImageAsVector BAD_IMAGE_NAME False tiny_world = Exit FILE_NOT_OPENED
   \<and> ReadImageAsVector TINY_IMAGE_FILENAME False (failing_world ReadKeys 108 tiny_world) = Exit 108
   \<and> ReadImageAsVector TINY_IMAGE_FILENAME False (failing_world ReadPix 108 tiny_world) = Exit 108
   \<and> ReadImageAsVector TINY_IMAGE_FILENAME False (failing_world CloseFile 110 tiny_world) = Exit 110
   \<and> SaveVectorAsImage tinyImage TINY_IMAGE_FILENAME 3 3 [] (failing_world WritePix 106 quiet_world)
       = Exit 106
   \<and> SaveVectorAsImage tinyImage TINY_IMAGE_FILENAME 3 3 [] (failing_world CloseFile 110 quiet_world)
       = Exit 110
   \<and> files tiny_world TINY_IMAGE_FILENAME \<noteq> None
   \<and> raises quiet_world WritePix \<le> 0
   \<and> (104 :: int) \<noteq> 0
   \<and> (106 :: int) \<noteq> 0"
proof -
  let ?img = "saved_image quiet_world tinyImage 3 3 []"
  note wf = tiny_image_well_formed
  have a: "PrintError 104 = Exit 104"
    using exit_on_error [where status = 104, THEN conjunct1] by simp
  have b: "ReadImageAsVector TINY_IMAGE_FILENAME False (failing_world OpenFile 104 tiny_world)
      = Exit 104"
    using exit_on_error [where w = "failing_world OpenFile 104 tiny_world"
        and fn = TINY_IMAGE_FILENAME and vb = False, THEN conjunct2, THEN conjunct1]
    by simp
  have c: "ReadImageAsVector BAD_IMAGE_NAME False tiny_world = Exit FILE_NOT_OPENED"
    using exit_on_error [where w = tiny_world and fn = BAD_IMAGE_NAME and vb = False,
        THEN conjunct2, THEN conjunct2, THEN conjunct1]
    by simp
  have d: "ReadImageAsVector TINY_IMAGE_FILENAME False (failing_world ReadKeys 108 tiny_world)
      = Exit 108"
    using exit_on_error [where w = "failing_world ReadKeys 108 tiny_world"
        and fn = TINY_IMAGE_FILENAME and vb = False and img = ?img,
        THEN conjunct2, THEN conjunct2, THEN conjunct2, THEN conjunct1]
    by simp
  have e: "ReadImageAsVector TINY_IMAGE_FILENAME False (failing_world ReadPix 108 tiny_world)
      = Exit 108"
    using exit_on_error [where w = "failing_world ReadPix 108 tiny_world"
        and fn = TINY_IMAGE_FILENAME and vb = False and img = ?img,
        THEN conjunct2, THEN conjunct2, THEN conjunct2, THEN conjunct2, THEN conjunct1]
    by simp
  have f: "ReadImageAsVector TINY_IMAGE_FILENAME False (failing_world CloseFile 110 tiny_world)
      = Exit 110"
    using wf exit_on_error [where w = "failing_world CloseFile 110 tiny_world"
        and fn = TINY_IMAGE_FILENAME and vb = False and img = ?img,
        THEN conjunct2, THEN conjunct2, THEN conjunct2, THEN conjunct2, THEN conjunct2,
        THEN conjunct1]
    by simp
  have g: "SaveVectorAsImage tinyImage TINY_IMAGE_FILENAME 3 3 []
      (failing_world WritePix 106 quiet_world) = Exit 106"
    using exit_on_error [where w = "failing_world WritePix 106 quiet_world"
        and fn = TINY_IMAGE_FILENAME and pix = tinyImage and nc = 3 and nr = 3 and cms = "[]",
        THEN conjunct2,
        THEN conjunct2, THEN conjunct2, THEN conjunct2, THEN conjunct2, THEN conjunct2,
        THEN conjunct1]
    by simp
  have h: "SaveVectorAsImage tinyImage TINY_IMAGE_FILENAME 3 3 []
      (failing_world CloseFile 110 quiet_world) = Exit 110"
    using exit_on_error [where w = "failing_world CloseFile 110 quiet_world"
        and fn = TINY_IMAGE_FILENAME and pix = tinyImage and nc = 3 and nr = 3 and cms = "[]",
        THEN conjunct2,
        THEN conjunct2, THEN conjunct2, THEN conjunct2, THEN conjunct2, THEN conjunct2,
        THEN conjunct2, THEN conjunct1]
    by (simp add: tinyImage_def)
  have i: "files tiny_world TINY_IMAGE_FILENAME \<noteq> None"
    using tiny_world_read exit_on_error [where w = tiny_world and fn = TINY_IMAGE_FILENAME
        and vb = False and r = "(tinyImage, 3, 3, tiny_world)",
        THEN conjunct2, THEN conjunct2, THEN conjunct2, THEN conjunct2, THEN conjunct2,
        THEN conjunct2, THEN conjunct2, THEN conjunct2, THEN conjunct1]
    by blast
  have j: "raises quiet_world WritePix \<le> 0"
    using tiny_world_saved exit_on_error [where w = quiet_world and fn = TINY_IMAGE_FILENAME
        and pix = tinyImage and nc = 3 and nr = 3 and cms = "[]" and w' = tiny_world,
        THEN conjunct2, THEN conjunct2, THEN conjunct2, THEN conjunct2, THEN conjunct2,
        THEN conjunct2, THEN conjunct2, THEN conjunct2, THEN conjunct2, THEN conjunct1]
    by blast
  have k: "(104 :: int) \<noteq> 0"
    using b exit_on_error [where w = "failing_world OpenFile 104 tiny_world"
        and fn = TINY_IMAGE_FILENAME and vb = False and s = 104,
        THEN conjunct2, THEN conjunct2, THEN conjunct2, THEN conjunct2, THEN conjunct2,
        THEN conjunct2, THEN conjunct2, THEN conjunct2, THEN conjunct2, THEN conjunct2,
        THEN conjunct1]
    by blast
  have l: "(106 :: int) \<noteq> 0"
    using g exit_on_error [where w = "failing_world WritePix 106 quiet_world"
        and fn = TINY_IMAGE_FILENAME and pix = tinyImage and nc = 3 and nr = 3 and cms = "[]"
        and s = 106,
        THEN conjunct2, THEN conjunct2, THEN conjunct2, THEN conjunct2, THEN conjunct2,
        THEN conjunct2, THEN conjunct2, THEN conjunct2, THEN conjunct2, THEN conjunct2,
        THEN conjunct2]
    by blast
  from a b c d e f g h i j k l show ?thesis by blast
qed

subsection \<open>The order of the pixels in a buffer\<close>

text \<open>
  Claim C8. Images are stored and read as row-major arrays of doubles. Read: for a file
  that holds a well-formed image, \<open>ReadImageAsVector\<close> returns \<open>nCols\<close> = NAXIS1,
  \<open>nRows\<close> = NAXIS2 and a buffer of \<open>nCols * nRows\<close> values in which the pixel of
  column \<open>i\<close> and row \<open>j\<close> (both from 0; FITS pixel \<open>(i + 1, j + 1)\<close>) is at index
  \<open>j * nCols + i\<close>, so the lower-left pixel \<open>(1, 1)\<close> is at index 0 and the upper-right
  pixel at index \<open>nCols * nRows - 1\<close>. Stored: \<open>SaveVectorAsImage\<close> puts element
  \<open>j * nColumns + i\<close> of its vector, converted to the pixel type, at FITS pixel
  \<open>(i + 1, j + 1)\<close>.
\<close>

theorem row_major_layout:
  "(no_io_error w \<and> files w fn = Some img \<and> well_formed img \<longrightarrow>
      (\<exists>buf. ReadImageAsVector fn vb w = Return (buf, naxis1 img, naxis2 img, w)
         \<and> int (length buf) = naxis1 img * naxis2 img
         \<and> (\<forall>i j. 0 \<le> i \<and> i < naxis1 img \<and> 0 \<le> j \<and> j < naxis2 img \<longrightarrow>
               buf ! nat (j * naxis1 img + i) = pixel_at img (i + 1) (j + 1))
         \<and> (0 < naxis1 img * naxis2 img \<longrightarrow>
               buf ! 0 = pixel_at img 1 1 \<and>
               buf ! nat (naxis1 img * naxis2 img - 1) = pixel_at img (naxis1 img) (naxis2 img))))
   \<and> (no_io_error w \<and> 0 \<le> nc \<and> nc < 2 ^ 31 \<and> 0 \<le> nr \<and> nr < 2 ^ 31 \<and> nc * nr < 2 ^ 31 \<and>
       int (length pix) = nc * nr \<and> 0 \<le> i \<and> i < nc \<and> 0 \<le> j \<and> j < nr \<longrightarrow>
        SaveVectorAsImage pix fn nc nr cms w =
          Return (w\<lparr>files := (files w)(fn \<mapsto> saved_image w pix nc nr cms)\<rparr>)
        \<and> pixel_at (saved_image w pix nc nr cms) (i + 1) (j + 1) =
            stored_as w FLOAT_IMG (pix ! nat (j * nc + i)))"
proof (intro conjI impI)
  assume h: "no_io_error w \<and> files w fn = Some img \<and> well_formed img"
  then have "ReadImageAsVector fn vb w = Return (pixels img, naxis1 img, naxis2 img, w)"
    by (simp add: Read_quiet)
  moreover have "int (length (pixels img)) = naxis1 img * naxis2 img"
    using h by (simp add: well_formed_def)
  ultimately show "\<exists>buf. ReadImageAsVector fn vb w = Return (buf, naxis1 img, naxis2 img, w)
         \<and> int (length buf) = naxis1 img * naxis2 img
         \<and> (\<forall>i j. 0 \<le> i \<and> i < naxis1 img \<and> 0 \<le> j \<and> j < naxis2 img \<longrightarrow>
               buf ! nat (j * naxis1 img + i) = pixel_at img (i + 1) (j + 1))
         \<and> (0 < naxis1 img * naxis2 img \<longrightarrow>
               buf ! 0 = pixel_at img 1 1 \<and>
               buf ! nat (naxis1 img * naxis2 img - 1) = pixel_at img (naxis1 img) (naxis2 img))"
    by (simp add: pixel_at_row_major pixel_at_first pixel_at_last)
next
  assume h: "no_io_error w \<and> 0 \<le> nc \<and> nc < 2 ^ 31 \<and> 0 \<le> nr \<and> nr < 2 ^ 31 \<and>
       nc * nr < 2 ^ 31 \<and> int (length pix) = nc * nr \<and> 0 \<le> i \<and> i < nc \<and> 0 \<le> j \<and> j < nr"
  then show "SaveVectorAsImage pix fn nc nr cms w =
          Return (w\<lparr>files := (files w)(fn \<mapsto> saved_image w pix nc nr cms)\<rparr>)"
    by (simp add: Save_quiet)
  from h show "pixel_at (saved_image w pix nc nr cms) (i + 1) (j + 1) =
            stored_as w FLOAT_IMG (pix ! nat (j * nc + i))"
    by (simp add: saved_image_pixel)
qed

theorem row_major_layout_witness:
  "ReadImageAsVector TINY_IMAGE_FILENAME False tiny_world = Return (tinyImage, 3, 3, tiny_world)
   \<and> tinyImage ! nat (2 * 3 + 1) = pixel_at (saved_image quiet_world tinyImage 3 3 []) 2 3
   \<and> tinyImage ! 0 = pixel_at (saved_image quiet_world tinyImage 3 3 []) 1 1
   \<and> tinyImage ! 8 = pixel_at (saved_image quiet_world tinyImage 3 3 []) 3 3
   \<and> SaveVectorAsImage tinyImage TINY_IMAGE_FILENAME 3 3 [] quiet_world = Return tiny_world
   \<and> pixel_at (saved_image quiet_world tinyImage 3 3 []) 2 3 = Finite 8"
proof -
  let ?img = "saved_image quiet_world tinyImage 3 3 []"
  have h1: "no_io_error tiny_world \<and> files tiny_world TINY_IMAGE_FILENAME = Some ?img \<and>
      well_formed ?img"
    by (simp add: tiny_image_well_formed)
  from row_major_layout [where w = tiny_world and fn = TINY_IMAGE_FILENAME and img = ?img
      and vb = False, THEN conjunct1, THEN mp, OF h1]
  obtain buf where
    r: "ReadImageAsVector TINY_IMAGE_FILENAME False tiny_world =
          Return (buf, naxis1 ?img, naxis2 ?img, tiny_world)"
    and ij: "\<forall>i j. 0 \<le> i \<and> i < naxis1 ?img \<and> 0 \<le> j \<and> j < naxis2 ?img \<longrightarrow>
          buf ! nat (j * naxis1 ?img + i) = pixel_at ?img (i + 1) (j + 1)"
    and c: "0 < naxis1 ?img * naxis2 ?img \<longrightarrow>
          buf ! 0 = pixel_at ?img 1 1 \<and>
          buf ! nat (naxis1 ?img * naxis2 ?img - 1) = pixel_at ?img (naxis1 ?img) (naxis2 ?img)"
    by blast
  from r have buf: "buf = tinyImage"
    by (simp add: tiny_world_read)
  have n: "naxis1 ?img = 3" "naxis2 ?img = 3"
    by (simp_all add: saved_image_def)
  from ij [rule_format, of 1 2] have a: "tinyImage ! nat (2 * 3 + 1) = pixel_at ?img 2 3"
    by (simp add: buf n)
  from c have b: "tinyImage ! 0 = pixel_at ?img 1 1" "tinyImage ! 8 = pixel_at ?img 3 3"
    by (simp_all add: buf n)
  have h2: "no_io_error quiet_world \<and> 0 \<le> (3::int) \<and> (3::int) < 2 ^ 31 \<and> 0 \<le> (3::int) \<and>
      (3::int) < 2 ^ 31 \<and> (3::int) * 3 < 2 ^ 31 \<and> int (length tinyImage) = 3 * 3 \<and>
      0 \<le> (1::int) \<and> (1::int) < 3 \<and> 0 \<le> (2::int) \<and> (2::int) < 3"
    by (simp add: tinyImage_def)
  from row_major_layout [where w = quiet_world and fn = TINY_IMAGE_FILENAME and pix = tinyImage
      and nc = 3 and nr = 3 and i = 1 and j = 2 and cms = "[]", THEN conjunct2, THEN mp, OF h2]
  have s: "SaveVectorAsImage tinyImage TINY_IMAGE_FILENAME 3 3 [] quiet_world = Return tiny_world"
    and p: "pixel_at ?img 2 3 = Finite 8"
    by (simp_all add: tiny_world_def tinyImage_def example_conversion_def)
  from r buf n a b s p show ?thesis by simp
qed

subsection \<open>Writing an image and reading it back\<close>

text \<open>
  Claim C10. \<open>SaveVectorAsImage\<close> followed by \<open>ReadImageAsVector\<close> on the same file
  returns the dimensions that were saved, and the pixel values as converted to the pixel
  type of the file, which \<open>SaveVectorAsImage\<close> creates as \<open>FLOAT_IMG\<close> (single
  precision). Where cfitsio converts to that type by rounding to the nearest
  single-precision number, the values read back are the saved values rounded to single
  precision: a value of magnitude at most \<open>2^127\<close> comes back with a relative error of at
  most \<open>2^-24\<close> (an absolute error of at most \<open>2^-150\<close> in the subnormal range), and not
  exactly in general: \<open>1 + 2^-30\<close> is read back as 1.
\<close>

theorem save_then_read:
  "(no_io_error w \<and> 0 \<le> nc \<and> nc < 2 ^ 31 \<and> 0 \<le> nr \<and> nr < 2 ^ 31 \<and> nc * nr < 2 ^ 31 \<and>
    int (length pix) = nc * nr \<longrightarrow>
     proc_bind (SaveVectorAsImage pix fn nc nr cms w) (ReadImageAsVector fn vb) =
       Return (map (stored_as w FLOAT_IMG) pix, nc, nr,
               w\<lparr>files := (files w)(fn \<mapsto> saved_image w pix nc nr cms)\<rparr>)
     \<and> bitpix (saved_image w pix nc nr cms) = FLOAT_IMG)
   \<and> (stored_as w FLOAT_IMG = to_single \<and> no_io_error w \<and> 0 \<le> nc \<and> nc < 2 ^ 31 \<and>
      0 \<le> nr \<and> nr < 2 ^ 31 \<and> nc * nr < 2 ^ 31 \<and> int (length pix) = nc * nr \<and>
      proc_bind (SaveVectorAsImage pix fn nc nr cms w) (ReadImageAsVector fn vb) =
        Return (buf, nc', nr', w') \<and>
      i < length pix \<and> single_range (pix ! i) \<longrightarrow>
        nc' = nc \<and> nr' = nr \<and> length buf = length pix \<and> buf ! i = to_single (pix ! i) \<and>
        within_single_precision (pix ! i) (buf ! i))
   \<and> map_proc_pixels
        (proc_bind (SaveVectorAsImage [Finite (1 + 1 / 2 ^ 30)] fn 1 1 cms single_precision_world)
           (ReadImageAsVector fn vb)) = Return ([Finite 1], 1, 1)"
proof -
  have general: "proc_bind (SaveVectorAsImage pix fn nc nr cms w) (ReadImageAsVector fn vb) =
       Return (map (stored_as w FLOAT_IMG) pix, nc, nr,
               w\<lparr>files := (files w)(fn \<mapsto> saved_image w pix nc nr cms)\<rparr>)"
    if h: "no_io_error w \<and> 0 \<le> nc \<and> nc < 2 ^ 31 \<and> 0 \<le> nr \<and> nr < 2 ^ 31 \<and>
      nc * nr < 2 ^ 31 \<and> int (length pix) = nc * nr"
    for w :: world and nc nr pix fn cms vb
  proof -
    let ?w' = "w\<lparr>files := (files w)(fn \<mapsto> saved_image w pix nc nr cms)\<rparr>"
    have s: "SaveVectorAsImage pix fn nc nr cms w = Return ?w'"
      using h by (simp add: Save_quiet)
    have wf: "well_formed (saved_image w pix nc nr cms)"
      using h by (simp add: saved_image_well_formed)
    have "ReadImageAsVector fn vb ?w' =
        Return (pixels (saved_image w pix nc nr cms), naxis1 (saved_image w pix nc nr cms),
                naxis2 (saved_image w pix nc nr cms), ?w')"
      using h wf by (intro Read_quiet) simp_all
    moreover have "pixels (saved_image w pix nc nr cms) = map (stored_as w FLOAT_IMG) pix"
    proof -
      have "nat (nc * nr) = length pix"
        using h by (metis nat_int)
      then show ?thesis by (simp add: saved_image_def)
    qed
    ultimately show ?thesis
      using s by (simp add: proc_bind_def saved_image_def)
  qed
  have c1: "no_io_error w \<and> 0 \<le> nc \<and> nc < 2 ^ 31 \<and> 0 \<le> nr \<and> nr < 2 ^ 31 \<and>
      nc * nr < 2 ^ 31 \<and> int (length pix) = nc * nr \<longrightarrow>
     proc_bind (SaveVectorAsImage pix fn nc nr cms w) (ReadImageAsVector fn vb) =
       Return (map (stored_as w FLOAT_IMG) pix, nc, nr,
               w\<lparr>files := (files w)(fn \<mapsto> saved_image w pix nc nr cms)\<rparr>)
     \<and> bitpix (saved_image w pix nc nr cms) = FLOAT_IMG"
    using general [of w nc nr pix fn cms vb] by (simp add: saved_image_def)
  have c2: "stored_as w FLOAT_IMG = to_single \<and> no_io_error w \<and> 0 \<le> nc \<and> nc < 2 ^ 31 \<and>
      0 \<le> nr \<and> nr < 2 ^ 31 \<and> nc * nr < 2 ^ 31 \<and> int (length pix) = nc * nr \<and>
      proc_bind (SaveVectorAsImage pix fn nc nr cms w) (ReadImageAsVector fn vb) =
        Return (buf, nc', nr', w') \<and>
      i < length pix \<and> single_range (pix ! i) \<longrightarrow>
        nc' = nc \<and> nr' = nr \<and> length buf = length pix \<and> buf ! i = to_single (pix ! i) \<and>
        within_single_precision (pix ! i) (buf ! i)"
  proof (intro impI)
    assume a: "stored_as w FLOAT_IMG = to_single \<and> no_io_error w \<and> 0 \<le> nc \<and> nc < 2 ^ 31 \<and>
      0 \<le> nr \<and> nr < 2 ^ 31 \<and> nc * nr < 2 ^ 31 \<and> int (length pix) = nc * nr \<and>
      proc_bind (SaveVectorAsImage pix fn nc nr cms w) (ReadImageAsVector fn vb) =
        Return (buf, nc', nr', w') \<and>
      i < length pix \<and> single_range (pix ! i)"
    then have "proc_bind (SaveVectorAsImage pix fn nc nr cms w) (ReadImageAsVector fn vb) =
       Return (map to_single pix, nc, nr,
               w\<lparr>files := (files w)(fn \<mapsto> saved_image w pix nc nr cms)\<rparr>)"
      using general [of w nc nr pix fn cms vb] by simp
    with a have r: "buf = map to_single pix" "nc' = nc" "nr' = nr"
      by simp_all
    from a have "within_single_precision (pix ! i) (to_single (pix ! i))"
      by (intro to_single_within) simp
    with a r show "nc' = nc \<and> nr' = nr \<and> length buf = length pix \<and>
        buf ! i = to_single (pix ! i) \<and> within_single_precision (pix ! i) (buf ! i)"
      by simp
  qed
  have c3: "map_proc_pixels
        (proc_bind (SaveVectorAsImage [Finite (1 + 1 / 2 ^ 30)] fn 1 1 cms single_precision_world)
           (ReadImageAsVector fn vb)) = Return ([Finite 1], 1, 1)"
  proof -
    have "proc_bind (SaveVectorAsImage [Finite (1 + 1 / 2 ^ 30)] fn 1 1 cms
        single_precision_world) (ReadImageAsVector fn vb) =
      Return (map (stored_as single_precision_world FLOAT_IMG) [Finite (1 + 1 / 2 ^ 30)], 1, 1,
        single_precision_world\<lparr>files := (files single_precision_world)
          (fn \<mapsto> saved_image single_precision_world [Finite (1 + 1 / 2 ^ 30)] 1 1 cms)\<rparr>)"
      by (rule general) simp
    then show ?thesis
      using to_single_lossy by (simp add: map_proc_pixels_def)
  qed
  from c1 c2 c3 show ?thesis by (intro conjI)
qed

theorem save_then_read_witness:
  "proc_bind (SaveVectorAsImage tinyImage TINY_IMAGE_FILENAME 3 3 [] quiet_world)
      (ReadImageAsVector TINY_IMAGE_FILENAME False) = Return (tinyImage, 3, 3, tiny_world)
   \<and> map_proc_pixels
        (proc_bind (SaveVectorAsImage [Finite 1, Finite (1 + 1 / 2 ^ 30)] TINY_IMAGE_FILENAME
            2 1 [] single_precision_world)
           (ReadImageAsVector TINY_IMAGE_FILENAME False)) = Return ([Finite 1, Finite 1], 2, 1)
   \<and> within_single_precision (Finite (1 + 1 / 2 ^ 30)) (Finite 1)"
proof -
  let ?pix = "[Finite 1, Finite (1 + 1 / 2 ^ 30)]"
  let ?w = "single_precision_world\<lparr>files := (files single_precision_world)
      (TINY_IMAGE_FILENAME \<mapsto> saved_image single_precision_world ?pix 2 1 [])\<rparr>"
  have h1: "no_io_error quiet_world \<and> 0 \<le> (3::int) \<and> (3::int) < 2 ^ 31 \<and> 0 \<le> (3::int) \<and>
      (3::int) < 2 ^ 31 \<and> (3::int) * 3 < 2 ^ 31 \<and> int (length tinyImage) = 3 * 3"
    by (simp add: tinyImage_def)
  from save_then_read [where w = quiet_world and pix = tinyImage and nc = 3 and nr = 3
      and fn = TINY_IMAGE_FILENAME and cms = "[]" and vb = False, THEN conjunct1, THEN mp, OF h1]
  have a: "proc_bind (SaveVectorAsImage tinyImage TINY_IMAGE_FILENAME 3 3 [] quiet_world)
      (ReadImageAsVector TINY_IMAGE_FILENAME False) = Return (tinyImage, 3, 3, tiny_world)"
    by (simp add: tiny_world_def) (simp add: tinyImage_def example_conversion_def)
  have h2: "no_io_error single_precision_world \<and> 0 \<le> (2::int) \<and> (2::int) < 2 ^ 31 \<and>
      0 \<le> (1::int) \<and> (1::int) < 2 ^ 31 \<and> (2::int) * 1 < 2 ^ 31 \<and>
      int (length ?pix) = 2 * 1"
    by simp
  from save_then_read [where w = single_precision_world and pix = ?pix and nc = 2 and nr = 1
      and fn = TINY_IMAGE_FILENAME and cms = "[]" and vb = False,
      THEN conjunct1, THEN mp, OF h2, THEN conjunct1]
  have r: "proc_bind (SaveVectorAsImage ?pix TINY_IMAGE_FILENAME 2 1 [] single_precision_world)
      (ReadImageAsVector TINY_IMAGE_FILENAME False) = Return ([Finite 1, Finite 1], 2, 1, ?w)"
    using to_single_one to_single_lossy by simp
  then have b: "map_proc_pixels
        (proc_bind (SaveVectorAsImage ?pix TINY_IMAGE_FILENAME 2 1 [] single_precision_world)
           (ReadImageAsVector TINY_IMAGE_FILENAME False)) = Return ([Finite 1, Finite 1], 2, 1)"
    by (simp add: map_proc_pixels_def)
  have h3: "stored_as single_precision_world FLOAT_IMG = to_single \<and>
      no_io_error single_precision_world \<and> 0 \<le> (2::int) \<and> (2::int) < 2 ^ 31 \<and>
      0 \<le> (1::int) \<and> (1::int) < 2 ^ 31 \<and> (2::int) * 1 < 2 ^ 31 \<and>
      int (length ?pix) = 2 * 1 \<and>
      proc_bind (SaveVectorAsImage ?pix TINY_IMAGE_FILENAME 2 1 [] single_precision_world)
        (ReadImageAsVector TINY_IMAGE_FILENAME False) = Return ([Finite 1, Finite 1], 2, 1, ?w) \<and>
      1 < length ?pix \<and> single_range (?pix ! 1)"
    using r by (simp add: single_range_def)
  from save_then_read [where w = single_precision_world and pix = ?pix and nc = 2 and nr = 1
      and fn = TINY_IMAGE_FILENAME and cms = "[]" and vb = False
      and buf = "[Finite 1, Finite 1]" and nc' = 2 and nr' = 1 and w' = ?w and i = 1,
      THEN conjunct2, THEN conjunct1, THEN mp, OF h3,
      THEN conjunct2, THEN conjunct2, THEN conjunct2, THEN conjunct2]
  have c: "within_single_precision (Finite (1 + 1 / 2 ^ 30)) (Finite 1)"
    by simp
  from a b c show ?thesis by (intro conjI)
qed

end
